theory Spec2Isabelle
  imports Main "HOL-Library.AList" "HOL-Library.Multiset"
begin

section \<open>Workflow checkpointing (autonomi/checkpoint.py)\<close>

text \<open>
  A shallow embedding of the checkpoint/recovery engine: the \<open>Checkpoint\<close> record, the
  two storage backends, the \<open>Checkpointer\<close> and the scoped \<open>CheckpointContext\<close>.
  Python objects are modelled by their field values; a method that mutates its argument
  returns the mutated value next to the new state of the store. The volatile backend
  stores the very object it is given; every operation of the checkpointer saves the object
  it mutates before it returns, so the stored record and the returned record are then the
  same value, as in the model. The backends' lock and per-thread connections are not
  modelled: operations run one after the other. Storage failures of the database are not
  modelled, and step indices are taken to fit its integer column.
\<close>

subsection \<open>Enumerations and errors\<close>

datatype CheckpointStatus = PENDING | IN_PROGRESS | COMPLETED | FAILED | RECOVERED

datatype RecoveryMode = RESUME_FROM_LAST | RESTART_TASK | SKIP_FAILED | MANUAL

text \<open>The exceptions the modelled code can raise: \<open>CheckpointStatus(tag)\<close> on an unknown
  tag, \<open>json.loads\<close> on malformed text, \<open>del d[k]\<close> on a missing key.\<close>

datatype error = ValueError string | JSONDecodeError string | KeyError string

text \<open>\<open>status.value\<close>: the string tag of a status.\<close>

fun status_value :: "CheckpointStatus \<Rightarrow> string" where
  "status_value PENDING = ''pending''"
| "status_value IN_PROGRESS = ''in_progress''"
| "status_value COMPLETED = ''completed''"
| "status_value FAILED = ''failed''"
| "status_value RECOVERED = ''recovered''"

text \<open>\<open>CheckpointStatus(tag)\<close>: the enum lookup by value, raising \<open>ValueError\<close> on an unknown tag.\<close>

definition CheckpointStatus_of :: "string \<Rightarrow> error + CheckpointStatus" where
  "CheckpointStatus_of tag =
     (if tag = ''pending'' then Inr PENDING
      else if tag = ''in_progress'' then Inr IN_PROGRESS
      else if tag = ''completed'' then Inr COMPLETED
      else if tag = ''failed'' then Inr FAILED
      else if tag = ''recovered'' then Inr RECOVERED
      else Inl (ValueError tag))"

subsection \<open>Decimal rendering of Python integers\<close>

text \<open>\<open>str(n)\<close> for an unbounded integer: a minus sign for negatives, then the decimal
  digits without leading zeros.\<close>

definition digit_char :: "nat \<Rightarrow> char" where
  "digit_char d = ''0123456789'' ! d"

function str_nat :: "nat \<Rightarrow> string" where
  "str_nat n = (if n < 10 then [digit_char n] else str_nat (n div 10) @ [digit_char (n mod 10)])"
  by pat_completeness auto
termination
  by (relation "measure (\<lambda>n. n)") auto

declare str_nat.simps [simp del]

definition is_digit :: "char \<Rightarrow> bool" where
  "is_digit c = (c \<in> set ''0123456789'')"

definition str_int :: "int \<Rightarrow> string" where
  "str_int i = (if i < 0 then CHR ''-'' # str_nat (nat (- i)) else str_nat (nat i))"

subsection \<open>Identity generation\<close>

text \<open>\<open>Checkpointer.generate_checkpoint_id\<close>: the f-string
  \<open>{workflow_id}_step_{step_index}\<close>.\<close>

definition generate_checkpoint_id :: "string \<Rightarrow> int \<Rightarrow> string" where
  "generate_checkpoint_id wid idx = wid @ ''_step_'' @ str_int idx"


subsection \<open>The Checkpoint record\<close>

text \<open>Structured payloads (\<open>Dict[str, Any]\<close>) are dictionaries from strings to JSON values,
  kept as association lists; the empty list is the empty dictionary \<open>{}\<close>.\<close>

datatype json = JNull | JBool bool | JInt int | JStr string | JList "json list"
  | JDict "(string \<times> json) list"

type_synonym payload = "(string \<times> json) list"

text \<open>The dataclass \<open>Checkpoint\<close>. Timestamps are the ISO strings of
  \<open>datetime.utcnow().isoformat()\<close>; the field \<open>id\<close> is named \<open>cp_id\<close> here.\<close>

record Checkpoint =
  cp_id :: string
  workflow_id :: string
  step_name :: string
  step_index :: int
  status :: CheckpointStatus
  input_data :: payload
  output_data :: "payload option"
  error :: "string option"
  created_at :: string
  updated_at :: string
  metadata :: payload

subsection \<open>MemoryCheckpointBackend\<close>

text \<open>
  The dictionary \<open>_checkpoints\<close>, in insertion order. Assigning to an existing key keeps
  its position, assigning to a new key appends (\<open>AList.update\<close>). Every clock reading
  \<open>datetime.utcnow().isoformat()\<close> of a call is an argument \<open>now\<close> of the model.
\<close>

type_synonym MemoryCheckpointBackend = "(string \<times> Checkpoint) list"

definition memory_save ::
  "string \<Rightarrow> Checkpoint \<Rightarrow> MemoryCheckpointBackend \<Rightarrow> Checkpoint \<times> MemoryCheckpointBackend" where
  "memory_save now checkpoint d =
     (let cp = checkpoint\<lparr>updated_at := now\<rparr> in (cp, AList.update (cp_id cp) cp d))"

definition memory_load :: "MemoryCheckpointBackend \<Rightarrow> string \<Rightarrow> Checkpoint option" where
  "memory_load d checkpoint_id = map_of d checkpoint_id"

definition memory_list_workflow_checkpoints ::
  "MemoryCheckpointBackend \<Rightarrow> string \<Rightarrow> Checkpoint list" where
  "memory_list_workflow_checkpoints d wid =
     sort_key step_index (filter (\<lambda>cp. workflow_id cp = wid) (map snd d))"

definition memory_get_last_checkpoint ::
  "MemoryCheckpointBackend \<Rightarrow> string \<Rightarrow> Checkpoint option" where
  "memory_get_last_checkpoint d wid =
     (let checkpoints = memory_list_workflow_checkpoints d wid
      in if checkpoints \<noteq> [] then Some (last checkpoints) else None)"

text \<open>\<open>for cp_id in to_delete: del self._checkpoints[cp_id]\<close>; \<open>del\<close> raises
  \<open>KeyError\<close> on a key that is not there.\<close>

fun del_keys ::
  "string list \<Rightarrow> MemoryCheckpointBackend \<Rightarrow> error + MemoryCheckpointBackend" where
  "del_keys [] d = Inr d"
| "del_keys (k # ks) d =
     (if k \<in> fst ` set d then del_keys ks (AList.delete k d) else Inl (KeyError k))"

definition memory_delete_workflow_checkpoints ::
  "MemoryCheckpointBackend \<Rightarrow> string \<Rightarrow> error + nat \<times> MemoryCheckpointBackend" where
  "memory_delete_workflow_checkpoints d wid =
     (let to_delete = map fst (filter (\<lambda>(k, cp). workflow_id cp = wid) d)
      in case del_keys to_delete d of
           Inl e \<Rightarrow> Inl e
         | Inr d' \<Rightarrow> Inr (length to_delete, d'))"

text \<open>The result is \<open>list(incomplete)\<close> of a Python set: no duplicates, no defined order.
  The model returns the set.\<close>

definition memory_get_incomplete_workflows :: "MemoryCheckpointBackend \<Rightarrow> string set" where
  "memory_get_incomplete_workflows d =
     fold (\<lambda>cp incomplete.
             if status cp = PENDING \<or> status cp = IN_PROGRESS
             then insert (workflow_id cp) incomplete else incomplete)
          (map snd d) {}"

subsection \<open>SQLiteCheckpointBackend\<close>

text \<open>
  The table \<open>checkpoints\<close> as the list of its rows, oldest insertion first. The columns
  \<open>output_data\<close>, \<open>error\<close> and \<open>metadata\<close> are nullable. \<open>INSERT OR REPLACE\<close> removes
  the row with the same primary key and inserts the new one; \<open>ORDER BY\<close> is modelled by
  the stable sort on the table order (SQL leaves the order of equal keys open).
  The functions \<open>json.dumps\<close> and \<open>json.loads\<close> of the standard library are the
  parameters \<open>dumps\<close> and \<open>loads\<close>.
\<close>

record Row =
  col_id :: string
  col_workflow_id :: string
  col_step_name :: string
  col_step_index :: int
  col_status :: string
  col_input_data :: string
  col_output_data :: "string option"
  col_error :: "string option"
  col_created_at :: string
  col_updated_at :: string
  col_metadata :: "string option"

type_synonym SQLiteCheckpointBackend = "Row list"

definition insert_or_replace :: "Row \<Rightarrow> Row list \<Rightarrow> Row list" where
  "insert_or_replace r t = filter (\<lambda>r'. col_id r' \<noteq> col_id r) t @ [r]"

text \<open>The tuple of column values that \<open>save\<close> binds to the \<open>INSERT\<close> statement. A payload
  is falsy when it is \<open>None\<close> or the empty dictionary.\<close>

definition checkpoint_to_row :: "(payload \<Rightarrow> string) \<Rightarrow> Checkpoint \<Rightarrow> Row" where
  "checkpoint_to_row dumps cp =
     \<lparr>col_id = cp_id cp,
      col_workflow_id = workflow_id cp,
      col_step_name = step_name cp,
      col_step_index = step_index cp,
      col_status = status_value (status cp),
      col_input_data = dumps (input_data cp),
      col_output_data =
        (case output_data cp of
           None \<Rightarrow> None
         | Some out \<Rightarrow> if out \<noteq> [] then Some (dumps out) else None),
      col_error = error cp,
      col_created_at = created_at cp,
      col_updated_at = updated_at cp,
      col_metadata = Some (dumps (metadata cp))\<rparr>"

definition sqlite_save ::
  "(payload \<Rightarrow> string) \<Rightarrow> string \<Rightarrow> Checkpoint \<Rightarrow> SQLiteCheckpointBackend
     \<Rightarrow> Checkpoint \<times> SQLiteCheckpointBackend" where
  "sqlite_save dumps now checkpoint t =
     (let cp = checkpoint\<lparr>updated_at := now\<rparr>
      in (cp, insert_or_replace (checkpoint_to_row dumps cp) t))"

text \<open>\<open>_row_to_checkpoint\<close>; the keyword arguments are evaluated in the order written, so
  the first failing conversion is the exception raised. A column value is falsy when it
  is NULL or the empty string.\<close>

definition row_to_checkpoint ::
  "(string \<Rightarrow> error + payload) \<Rightarrow> Row \<Rightarrow> error + Checkpoint" where
  "row_to_checkpoint loads row =
     (case CheckpointStatus_of (col_status row) of
        Inl e \<Rightarrow> Inl e
      | Inr st \<Rightarrow>
     (case loads (col_input_data row) of
        Inl e \<Rightarrow> Inl e
      | Inr inp \<Rightarrow>
     (case (case col_output_data row of
              None \<Rightarrow> Inr None
            | Some s \<Rightarrow> if s \<noteq> [] then map_sum (\<lambda>e. e) Some (loads s) else Inr None) of
        Inl e \<Rightarrow> Inl e
      | Inr outp \<Rightarrow>
     (case (case col_metadata row of
              None \<Rightarrow> Inr []
            | Some s \<Rightarrow> if s \<noteq> [] then loads s else Inr []) of
        Inl e \<Rightarrow> Inl e
      | Inr md \<Rightarrow>
          Inr \<lparr>cp_id = col_id row,
               workflow_id = col_workflow_id row,
               step_name = col_step_name row,
               step_index = col_step_index row,
               status = st,
               input_data = inp,
               output_data = outp,
               error = col_error row,
               created_at = col_created_at row,
               updated_at = col_updated_at row,
               metadata = md\<rparr>))))"

definition sqlite_load ::
  "(string \<Rightarrow> error + payload) \<Rightarrow> SQLiteCheckpointBackend \<Rightarrow> string
     \<Rightarrow> error + Checkpoint option" where
  "sqlite_load loads t checkpoint_id =
     (case find (\<lambda>r. col_id r = checkpoint_id) t of
        None \<Rightarrow> Inr None
      | Some row \<Rightarrow> map_sum (\<lambda>e. e) Some (row_to_checkpoint loads row))"

text \<open>The list comprehension over the fetched rows: the first row that fails to convert
  raises.\<close>

fun rows_to_checkpoints ::
  "(string \<Rightarrow> error + payload) \<Rightarrow> Row list \<Rightarrow> error + Checkpoint list" where
  "rows_to_checkpoints loads [] = Inr []"
| "rows_to_checkpoints loads (row # rows) =
     (case row_to_checkpoint loads row of
        Inl e \<Rightarrow> Inl e
      | Inr cp \<Rightarrow>
          (case rows_to_checkpoints loads rows of
             Inl e \<Rightarrow> Inl e
           | Inr cps \<Rightarrow> Inr (cp # cps)))"

definition sqlite_list_workflow_checkpoints ::
  "(string \<Rightarrow> error + payload) \<Rightarrow> SQLiteCheckpointBackend \<Rightarrow> string
     \<Rightarrow> error + Checkpoint list" where
  "sqlite_list_workflow_checkpoints loads t wid =
     rows_to_checkpoints loads
       (sort_key col_step_index (filter (\<lambda>r. col_workflow_id r = wid) t))"

text \<open>\<open>ORDER BY step_index DESC LIMIT 1\<close>, then \<open>fetchone\<close>.\<close>

definition sqlite_get_last_checkpoint ::
  "(string \<Rightarrow> error + payload) \<Rightarrow> SQLiteCheckpointBackend \<Rightarrow> string
     \<Rightarrow> error + Checkpoint option" where
  "sqlite_get_last_checkpoint loads t wid =
     (case sort_key (\<lambda>r. - col_step_index r) (filter (\<lambda>r. col_workflow_id r = wid) t) of
        [] \<Rightarrow> Inr None
      | row # _ \<Rightarrow> map_sum (\<lambda>e. e) Some (row_to_checkpoint loads row))"

text \<open>\<open>DELETE ... WHERE workflow_id = ?\<close>; \<open>cursor.rowcount\<close> is the number of rows deleted.\<close>

definition sqlite_delete_workflow_checkpoints ::
  "SQLiteCheckpointBackend \<Rightarrow> string \<Rightarrow> nat \<times> SQLiteCheckpointBackend" where
  "sqlite_delete_workflow_checkpoints t wid =
     (length (filter (\<lambda>r. col_workflow_id r = wid) t),
      filter (\<lambda>r. col_workflow_id r \<noteq> wid) t)"

text \<open>\<open>SELECT DISTINCT workflow_id ... WHERE status IN (?, ?)\<close>: distinct values in no
  defined order, returned as a set.\<close>

definition sqlite_get_incomplete_workflows :: "SQLiteCheckpointBackend \<Rightarrow> string set" where
  "sqlite_get_incomplete_workflows t =
     set (map col_workflow_id
       (filter (\<lambda>r. col_status r = status_value PENDING \<or> col_status r = status_value IN_PROGRESS) t))"

text \<open>
  What is assumed of the JSON functions for a given payload, where a theorem needs it: the
  text \<open>json.dumps\<close> produces is not empty and \<open>json.loads\<close> decodes it to the payload
  (the payload is JSON-representable).
\<close>

definition json_roundtrips ::
  "(payload \<Rightarrow> string) \<Rightarrow> (string \<Rightarrow> error + payload) \<Rightarrow> payload \<Rightarrow> bool" where
  "json_roundtrips dumps loads p = (dumps p \<noteq> [] \<and> loads (dumps p) = Inr p)"

definition payloads_representable ::
  "(payload \<Rightarrow> string) \<Rightarrow> (string \<Rightarrow> error + payload) \<Rightarrow> Checkpoint \<Rightarrow> bool" where
  "payloads_representable dumps loads cp =
     (json_roundtrips dumps loads (input_data cp)
      \<and> json_roundtrips dumps loads (metadata cp)
      \<and> (case output_data cp of None \<Rightarrow> True | Some out \<Rightarrow> json_roundtrips dumps loads out))"

subsection \<open>The backend interface\<close>

text \<open>\<open>self._backend\<close> is one of the two implementations; a call on it dispatches on the
  object's class. The volatile backend never raises.\<close>

datatype CheckpointBackend = Memory MemoryCheckpointBackend | SQLite SQLiteCheckpointBackend

definition backend_save ::
  "(payload \<Rightarrow> string) \<Rightarrow> string \<Rightarrow> Checkpoint \<Rightarrow> CheckpointBackend
     \<Rightarrow> Checkpoint \<times> CheckpointBackend" where
  "backend_save dumps now checkpoint b =
     (case b of
        Memory d \<Rightarrow> map_prod (\<lambda>cp. cp) Memory (memory_save now checkpoint d)
      | SQLite t \<Rightarrow> map_prod (\<lambda>cp. cp) SQLite (sqlite_save dumps now checkpoint t))"

definition backend_load ::
  "(string \<Rightarrow> error + payload) \<Rightarrow> CheckpointBackend \<Rightarrow> string \<Rightarrow> error + Checkpoint option" where
  "backend_load loads b checkpoint_id =
     (case b of
        Memory d \<Rightarrow> Inr (memory_load d checkpoint_id)
      | SQLite t \<Rightarrow> sqlite_load loads t checkpoint_id)"

definition backend_list_workflow_checkpoints ::
  "(string \<Rightarrow> error + payload) \<Rightarrow> CheckpointBackend \<Rightarrow> string \<Rightarrow> error + Checkpoint list" where
  "backend_list_workflow_checkpoints loads b wid =
     (case b of
        Memory d \<Rightarrow> Inr (memory_list_workflow_checkpoints d wid)
      | SQLite t \<Rightarrow> sqlite_list_workflow_checkpoints loads t wid)"

definition backend_get_last_checkpoint ::
  "(string \<Rightarrow> error + payload) \<Rightarrow> CheckpointBackend \<Rightarrow> string \<Rightarrow> error + Checkpoint option" where
  "backend_get_last_checkpoint loads b wid =
     (case b of
        Memory d \<Rightarrow> Inr (memory_get_last_checkpoint d wid)
      | SQLite t \<Rightarrow> sqlite_get_last_checkpoint loads t wid)"

definition backend_delete_workflow_checkpoints ::
  "CheckpointBackend \<Rightarrow> string \<Rightarrow> error + nat \<times> CheckpointBackend" where
  "backend_delete_workflow_checkpoints b wid =
     (case b of
        Memory d \<Rightarrow> map_sum (\<lambda>e. e) (map_prod (\<lambda>n. n) Memory) (memory_delete_workflow_checkpoints d wid)
      | SQLite t \<Rightarrow> Inr (map_prod (\<lambda>n. n) SQLite (sqlite_delete_workflow_checkpoints t wid)))"

definition backend_get_incomplete_workflows :: "CheckpointBackend \<Rightarrow> string set" where
  "backend_get_incomplete_workflows b =
     (case b of
        Memory d \<Rightarrow> memory_get_incomplete_workflows d
      | SQLite t \<Rightarrow> sqlite_get_incomplete_workflows t)"

text \<open>A Python dictionary holds each key once, and the table's primary key is unique. Both
  hold of the empty store and are kept by every operation below.\<close>

definition keys_unique :: "CheckpointBackend \<Rightarrow> bool" where
  "keys_unique b = (case b of Memory d \<Rightarrow> distinct (map fst d) | SQLite t \<Rightarrow> distinct (map col_id t))"

text \<open>The ids under which a backend holds records: the dictionary's keys, the table's
  \<open>id\<close> column.\<close>

definition stored_ids :: "CheckpointBackend \<Rightarrow> string list" where
  "stored_ids b = (case b of Memory d \<Rightarrow> map fst d | SQLite t \<Rightarrow> map col_id t)"

subsection \<open>Checkpointer\<close>

record Checkpointer =
  backend :: CheckpointBackend
  recovery_mode :: RecoveryMode
  auto_cleanup :: bool
  workflow_counter :: nat

text \<open>
  \<open>checkpoint_start\<close> constructs the dataclass, whose default factories read the clock
  once for \<open>created_at\<close> and once for \<open>updated_at\<close>, and saves it, which reads the clock a
  third time. \<open>metadata or {}\<close> turns an absent or empty argument into the empty
  dictionary. Each operation returns the checkpoint object as mutated, and the
  checkpointer with the new backend state.
\<close>

definition checkpoint_start ::
  "(payload \<Rightarrow> string) \<Rightarrow> string \<times> string \<times> string \<Rightarrow> Checkpointer
     \<Rightarrow> string \<Rightarrow> string \<Rightarrow> int \<Rightarrow> payload \<Rightarrow> payload option
     \<Rightarrow> Checkpoint \<times> Checkpointer" where
  "checkpoint_start dumps clock self wid name idx inp md =
     (case clock of (now_created, now_updated, now_saved) \<Rightarrow>
        (let checkpoint =
               \<lparr>cp_id = generate_checkpoint_id wid idx,
                workflow_id = wid,
                step_name = name,
                step_index = idx,
                status = IN_PROGRESS,
                input_data = inp,
                output_data = None,
                error = None,
                created_at = now_created,
                updated_at = now_updated,
                metadata = (case md of None \<Rightarrow> [] | Some m \<Rightarrow> if m \<noteq> [] then m else [])\<rparr>
         in map_prod (\<lambda>cp. cp) (\<lambda>b. self\<lparr>backend := b\<rparr>)
              (backend_save dumps now_saved checkpoint (backend self))))"

definition checkpoint_complete ::
  "(payload \<Rightarrow> string) \<Rightarrow> string \<Rightarrow> Checkpointer \<Rightarrow> Checkpoint \<Rightarrow> payload
     \<Rightarrow> Checkpoint \<times> Checkpointer" where
  "checkpoint_complete dumps now self checkpoint out =
     map_prod (\<lambda>cp. cp) (\<lambda>b. self\<lparr>backend := b\<rparr>)
       (backend_save dumps now (checkpoint\<lparr>status := COMPLETED, output_data := Some out\<rparr>)
          (backend self))"

definition checkpoint_failed ::
  "(payload \<Rightarrow> string) \<Rightarrow> string \<Rightarrow> Checkpointer \<Rightarrow> Checkpoint \<Rightarrow> string
     \<Rightarrow> Checkpoint \<times> Checkpointer" where
  "checkpoint_failed dumps now self checkpoint err =
     map_prod (\<lambda>cp. cp) (\<lambda>b. self\<lparr>backend := b\<rparr>)
       (backend_save dumps now (checkpoint\<lparr>status := FAILED, error := Some err\<rparr>)
          (backend self))"

definition mark_recovered ::
  "(payload \<Rightarrow> string) \<Rightarrow> string \<Rightarrow> Checkpointer \<Rightarrow> Checkpoint
     \<Rightarrow> Checkpoint \<times> Checkpointer" where
  "mark_recovered dumps now self checkpoint =
     map_prod (\<lambda>cp. cp) (\<lambda>b. self\<lparr>backend := b\<rparr>)
       (backend_save dumps now (checkpoint\<lparr>status := RECOVERED\<rparr>) (backend self))"

text \<open>\<open>for cp in reversed(checkpoints): if ...: return cp\<close> is \<open>find\<close> on the reversed
  list.\<close>

definition get_recovery_point ::
  "(string \<Rightarrow> error + payload) \<Rightarrow> Checkpointer \<Rightarrow> string \<Rightarrow> error + Checkpoint option" where
  "get_recovery_point loads self wid =
     (if recovery_mode self = MANUAL then Inr None
      else
        (case backend_list_workflow_checkpoints loads (backend self) wid of
           Inl e \<Rightarrow> Inl e
         | Inr checkpoints \<Rightarrow>
             if checkpoints = [] then Inr None
             else if recovery_mode self = RESUME_FROM_LAST then Inr (Some (last checkpoints))
             else if recovery_mode self = RESTART_TASK then
               (case find (\<lambda>cp. status cp = FAILED \<or> status cp = IN_PROGRESS) (rev checkpoints) of
                  Some cp \<Rightarrow> Inr (Some cp)
                | None \<Rightarrow> Inr (Some (last checkpoints)))
             else if recovery_mode self = SKIP_FAILED then
               (case find (\<lambda>cp. status cp = COMPLETED) (rev checkpoints) of
                  Some cp \<Rightarrow> Inr (Some cp)
                | None \<Rightarrow> Inr None)
             else Inr (Some (last checkpoints))))"

definition get_incomplete_workflows :: "Checkpointer \<Rightarrow> string set" where
  "get_incomplete_workflows self = backend_get_incomplete_workflows (backend self)"

definition list_checkpoints ::
  "(string \<Rightarrow> error + payload) \<Rightarrow> Checkpointer \<Rightarrow> string \<Rightarrow> error + Checkpoint list" where
  "list_checkpoints loads self wid = backend_list_workflow_checkpoints loads (backend self) wid"

definition cleanup_workflow :: "Checkpointer \<Rightarrow> string \<Rightarrow> error + nat \<times> Checkpointer" where
  "cleanup_workflow self wid =
     map_sum (\<lambda>e. e) (map_prod (\<lambda>n. n) (\<lambda>b. self\<lparr>backend := b\<rparr>))
       (backend_delete_workflow_checkpoints (backend self) wid)"

text \<open>The contract on \<open>error\<close> of the data model: populated exactly when the status is
  \<open>FAILED\<close>.\<close>

definition error_iff_failed :: "Checkpoint \<Rightarrow> bool" where
  "error_iff_failed cp = ((error cp \<noteq> None) = (status cp = FAILED))"

subsection \<open>CheckpointContext\<close>

text \<open>
  The context manager's own fields; the checkpointer it refers to is passed and returned
  next to it. An exit receives \<open>exc\<close>: \<open>None\<close> when the body left normally
  (\<open>exc_type is None\<close>), \<open>Some msg\<close> when it raised an exception with \<open>str(exc_val) = msg\<close>.
  The first component of an exit's result is the value \<open>__exit__\<close> returns: \<open>True\<close> would
  suppress the exception.
\<close>

record CheckpointContext =
  ctx_workflow_id :: string
  ctx_step_name :: string
  ctx_step_index :: int
  ctx_input_data :: payload
  ctx_metadata :: "payload option"
  ctx_checkpoint :: "Checkpoint option"
  ctx_output :: "payload option"

definition checkpointer_context ::
  "string \<Rightarrow> string \<Rightarrow> int \<Rightarrow> payload \<Rightarrow> payload option \<Rightarrow> CheckpointContext" where
  "checkpointer_context wid name idx inp md =
     \<lparr>ctx_workflow_id = wid, ctx_step_name = name, ctx_step_index = idx, ctx_input_data = inp,
      ctx_metadata = md, ctx_checkpoint = None, ctx_output = None\<rparr>"

definition set_output :: "payload \<Rightarrow> CheckpointContext \<Rightarrow> CheckpointContext" where
  "set_output out ctx = ctx\<lparr>ctx_output := Some out\<rparr>"

definition context_enter ::
  "(payload \<Rightarrow> string) \<Rightarrow> string \<times> string \<times> string \<Rightarrow> CheckpointContext \<Rightarrow> Checkpointer
     \<Rightarrow> CheckpointContext \<times> Checkpointer" where
  "context_enter dumps clock ctx self =
     map_prod (\<lambda>cp. ctx\<lparr>ctx_checkpoint := Some cp\<rparr>) (\<lambda>s. s)
       (checkpoint_start dumps clock self (ctx_workflow_id ctx) (ctx_step_name ctx)
          (ctx_step_index ctx) (ctx_input_data ctx) (ctx_metadata ctx))"

definition context_exit ::
  "(payload \<Rightarrow> string) \<Rightarrow> string \<Rightarrow> CheckpointContext \<Rightarrow> string option \<Rightarrow> Checkpointer
     \<Rightarrow> bool \<times> CheckpointContext \<times> Checkpointer" where
  "context_exit dumps now ctx exc self =
     (case ctx_checkpoint ctx of
        None \<Rightarrow> (False, ctx, self)
      | Some checkpoint \<Rightarrow>
          (case exc of
             Some msg \<Rightarrow>
               (False, map_prod (\<lambda>cp. ctx\<lparr>ctx_checkpoint := Some cp\<rparr>) (\<lambda>s. s)
                         (checkpoint_failed dumps now self checkpoint msg))
           | None \<Rightarrow>
               (case ctx_output ctx of
                  Some out \<Rightarrow>
                    (False, map_prod (\<lambda>cp. ctx\<lparr>ctx_checkpoint := Some cp\<rparr>) (\<lambda>s. s)
                              (checkpoint_complete dumps now self checkpoint out))
                | None \<Rightarrow>
                    (False, map_prod (\<lambda>cp. ctx\<lparr>ctx_checkpoint := Some cp\<rparr>) (\<lambda>s. s)
                              (checkpoint_complete dumps now self checkpoint [])))))"

text \<open>The asynchronous entry and exit return what the synchronous ones return.\<close>

definition context_aenter ::
  "(payload \<Rightarrow> string) \<Rightarrow> string \<times> string \<times> string \<Rightarrow> CheckpointContext \<Rightarrow> Checkpointer
     \<Rightarrow> CheckpointContext \<times> Checkpointer" where
  "context_aenter dumps clock ctx self = context_enter dumps clock ctx self"

definition context_aexit ::
  "(payload \<Rightarrow> string) \<Rightarrow> string \<Rightarrow> CheckpointContext \<Rightarrow> string option \<Rightarrow> Checkpointer
     \<Rightarrow> bool \<times> CheckpointContext \<times> Checkpointer" where
  "context_aexit dumps now ctx exc self = context_exit dumps now ctx exc self"

text \<open>
  The \<open>with\<close> statement around a step body. The body is given by what it does to the
  context: the outputs it records with \<open>set_output\<close>, in order, and how it ends
  (\<open>None\<close>: it returns; \<open>Some msg\<close>: it raises). The statement enters, runs the body, exits,
  and re-raises the body's exception unless the exit returned \<open>True\<close>.
\<close>

datatype outcome = Returned | Raised string

definition with_context ::
  "bool \<Rightarrow> (payload \<Rightarrow> string) \<Rightarrow> string \<times> string \<times> string \<Rightarrow> string \<Rightarrow> CheckpointContext
     \<Rightarrow> payload list \<times> string option \<Rightarrow> Checkpointer
     \<Rightarrow> outcome \<times> CheckpointContext \<times> Checkpointer" where
  "with_context is_async dumps clock now_exit ctx body self =
     (case (if is_async then context_aenter dumps clock ctx self
            else context_enter dumps clock ctx self) of
        (ctx1, self1) \<Rightarrow>
          (let ctx2 = fold set_output (fst body) ctx1;
               exc = snd body
           in case (if is_async then context_aexit dumps now_exit ctx2 exc self1
                    else context_exit dumps now_exit ctx2 exc self1) of
                (suppress, ctx3, self2) \<Rightarrow>
                  ((case exc of
                      None \<Rightarrow> Returned
                    | Some msg \<Rightarrow> if suppress then Returned else Raised msg),
                   ctx3, self2)))"


subsection \<open>Sample data\<close>

text \<open>Concrete values on which the theorems below are instantiated: a checkpoint of
  workflow \<open>wid\<close> stored under key \<open>k\<close>, a checkpointer around a backend, and a JSON codec
  that knows three documents.\<close>

definition sample_checkpoint :: "string \<Rightarrow> string \<Rightarrow> int \<Rightarrow> CheckpointStatus \<Rightarrow> Checkpoint" where
  "sample_checkpoint k wid idx st =
     \<lparr>cp_id = k, workflow_id = wid, step_name = ''step'', step_index = idx, status = st,
      input_data = [(''x'', JInt 1)],
      output_data = (if st = COMPLETED then Some [(''y'', JInt 2)] else None),
      error = (if st = FAILED then Some ''Error'' else None),
      created_at = ''2024-01-01T00:00:00'', updated_at = ''2024-01-01T00:00:05'',
      metadata = []\<rparr>"

definition sample_checkpointer :: "CheckpointBackend \<Rightarrow> RecoveryMode \<Rightarrow> Checkpointer" where
  "sample_checkpointer b m =
     \<lparr>backend = b, recovery_mode = m, auto_cleanup = True, workflow_counter = 0\<rparr>"

definition sample_documents :: "(payload \<times> string) list" where
  "sample_documents =
     [([], ''{}''),
      ([(''x'', JInt 1)], ''{'' @ [CHR 0x22] @ ''x'' @ [CHR 0x22] @ '': 1}''),
      ([(''y'', JInt 2)], ''{'' @ [CHR 0x22] @ ''y'' @ [CHR 0x22] @ '': 2}'')]"

definition sample_dumps :: "payload \<Rightarrow> string" where
  "sample_dumps p = (case map_of sample_documents p of Some s \<Rightarrow> s | None \<Rightarrow> ''null'')"

definition sample_loads :: "string \<Rightarrow> error + payload" where
  "sample_loads s =
     (case find (\<lambda>doc. snd doc = s) sample_documents of
        Some doc \<Rightarrow> Inr (fst doc)
      | None \<Rightarrow> Inl (JSONDecodeError s))"

section \<open>Properties\<close>

subsection \<open>Decimal strings\<close>

lemma digit_char_is_digit: "d < 10 \<Longrightarrow> is_digit (digit_char d)"
  unfolding is_digit_def digit_char_def by (rule nth_mem) simp

lemma digit_char_inject:
  assumes "a < 10" "b < 10" "digit_char a = digit_char b"
  shows "a = b"
proof -
  have da: "distinct ''0123456789''" by simp
  have "a < length ''0123456789''" "b < length ''0123456789''"
    using assms by simp_all
  then show ?thesis
    using assms(3) da unfolding digit_char_def by (simp only: nth_eq_iff_index_eq)
qed

lemma str_nat_digits: "c \<in> set (str_nat n) \<Longrightarrow> is_digit c"
proof (induction n arbitrary: c rule: str_nat.induct)
  case (1 n)
  show ?case
  proof (cases "n < 10")
    case True
    with "1.prems" show ?thesis
      by (simp add: str_nat.simps [of n] digit_char_is_digit)
  next
    case False
    with "1.prems" "1.IH" show ?thesis
      by (auto simp: str_nat.simps [of n] digit_char_is_digit)
  qed
qed

lemma str_nat_nonempty: "str_nat n \<noteq> []"
  by (subst str_nat.simps) simp

lemma str_nat_length: "length (str_nat n) = Suc 0 \<longleftrightarrow> n < 10"
proof (cases "n < 10")
  case True
  then show ?thesis by (simp add: str_nat.simps [of n])
next
  case False
  with str_nat_nonempty [of "n div 10"] show ?thesis
    by (simp add: str_nat.simps [of n])
qed

lemma str_nat_inject: "str_nat n = str_nat m \<Longrightarrow> n = m"
proof (induction n arbitrary: m rule: str_nat.induct)
  case (1 n)
  show ?case
  proof (cases "n < 10")
    case True
    have "length (str_nat m) = Suc 0"
      using "1.prems" True str_nat_length [of n] by simp
    then have m: "m < 10" by (simp add: str_nat_length)
    from "1.prems" True m have "digit_char n = digit_char m"
      by (simp add: str_nat.simps [of n] str_nat.simps [of m])
    with True m show ?thesis by (rule digit_char_inject)
  next
    case False
    have "length (str_nat m) \<noteq> Suc 0"
      using "1.prems" False str_nat_length [of n] by simp
    then have m: "\<not> m < 10" by (simp add: str_nat_length)
    from "1.prems" False m
    have eq: "str_nat (n div 10) @ [digit_char (n mod 10)] = str_nat (m div 10) @ [digit_char (m mod 10)]"
      by (simp add: str_nat.simps [of n] str_nat.simps [of m])
    then have "str_nat (n div 10) = str_nat (m div 10)" by simp
    with False "1.IH" have d: "n div 10 = m div 10" by blast
    from eq have "digit_char (n mod 10) = digit_char (m mod 10)" by simp
    then have r: "n mod 10 = m mod 10"
      by (intro digit_char_inject) simp_all
    from d r show ?thesis
      by (metis div_mult_mod_eq)
  qed
qed

lemma underscore_not_digit: "\<not> is_digit CHR ''_''"
  by (simp add: is_digit_def)

lemma minus_not_digit: "\<not> is_digit CHR ''-''"
  by (simp add: is_digit_def)

text \<open>Reading an id from its end: the trailing run of digits is the magnitude of the step
  index, and the character before it tells the sign.\<close>

lemma digits_then_stop:
  assumes "\<forall>c\<in>set ds. is_digit c" and "\<not> is_digit x"
  shows "takeWhile is_digit (ds @ x # r) = ds" and "dropWhile is_digit (ds @ x # r) = x # r"
  using assms by (induction ds) auto

lemma rev_id_shape:
  "rev (generate_checkpoint_id w i)
     = rev (str_nat (nat \<bar>i\<bar>)) @ (if i < 0 then CHR ''-'' else CHR ''_'')
         # (if i < 0 then rev (w @ ''_step_'') else rev (w @ ''_step''))"
  by (simp add: generate_checkpoint_id_def str_int_def)

lemma rev_id_digits:
  "takeWhile is_digit (rev (generate_checkpoint_id w i)) = rev (str_nat (nat \<bar>i\<bar>))"
proof -
  have "\<forall>c\<in>set (rev (str_nat (nat \<bar>i\<bar>))). is_digit c"
    by (simp add: str_nat_digits)
  moreover have "\<not> is_digit (if i < 0 then CHR ''-'' else CHR ''_'')"
    by (simp add: minus_not_digit underscore_not_digit)
  ultimately show ?thesis
    unfolding rev_id_shape by (rule digits_then_stop(1))
qed

lemma rev_id_sign:
  "hd (dropWhile is_digit (rev (generate_checkpoint_id w i))) = (if i < 0 then CHR ''-'' else CHR ''_'')"
proof -
  have "\<forall>c\<in>set (rev (str_nat (nat \<bar>i\<bar>))). is_digit c"
    by (simp add: str_nat_digits)
  moreover have "\<not> is_digit (if i < 0 then CHR ''-'' else CHR ''_'')"
    by (simp add: minus_not_digit underscore_not_digit)
  ultimately have "dropWhile is_digit (rev (generate_checkpoint_id w i))
      = (if i < 0 then CHR ''-'' else CHR ''_'')
          # (if i < 0 then rev (w @ ''_step_'') else rev (w @ ''_step''))"
    unfolding rev_id_shape by (rule digits_then_stop(2))
  then show ?thesis by simp
qed

lemma generate_checkpoint_id_inject:
  assumes "generate_checkpoint_id w1 i1 = generate_checkpoint_id w2 i2"
  shows "w1 = w2 \<and> i1 = i2"
proof -
  have "rev (str_nat (nat \<bar>i1\<bar>)) = rev (str_nat (nat \<bar>i2\<bar>))"
    using assms rev_id_digits [of w1 i1] rev_id_digits [of w2 i2] by simp
  then have "nat \<bar>i1\<bar> = nat \<bar>i2\<bar>"
    using str_nat_inject by simp
  then have mag: "\<bar>i1\<bar> = \<bar>i2\<bar>" by simp
  have "(if i1 < 0 then CHR ''-'' else CHR ''_'') = (if i2 < 0 then CHR ''-'' else CHR ''_'')"
    using assms rev_id_sign [of w1 i1] rev_id_sign [of w2 i2] by simp
  then have sgn: "i1 < 0 \<longleftrightarrow> i2 < 0"
    by (simp split: if_splits)
  from mag sgn have i: "i1 = i2" by linarith
  with assms have "w1 = w2"
    by (simp add: generate_checkpoint_id_def)
  with i show ?thesis by simp
qed

subsection \<open>Checkpoint identity\<close>

text \<open>
  Claim C9. \<open>generate_checkpoint_id\<close> is a function of its two arguments alone, and it is
  injective: for every workflow id string and every non-negative step index, two pairs
  that yield the same checkpoint id are the same pair. Hence ids are equal exactly when
  the pairs (workflow_id, step_index) are equal.
\<close>

theorem generate_checkpoint_id_injective:
  assumes "0 \<le> i1" and "0 \<le> i2"
  shows "generate_checkpoint_id w1 i1 = generate_checkpoint_id w2 i2 \<longleftrightarrow> w1 = w2 \<and> i1 = i2"
  using generate_checkpoint_id_inject [of w1 i1 w2 i2] by auto

theorem generate_checkpoint_id_injective_witness:
  "(0::int) \<le> 1 \<and> (0::int) \<le> 12
   \<and> generate_checkpoint_id ''wf_step_1'' 2 = ''wf_step_1_step_2''
   \<and> generate_checkpoint_id ''wf'' 12 = ''wf_step_12''
   \<and> generate_checkpoint_id ''wf_step_1'' 2 \<noteq> generate_checkpoint_id ''wf'' 12
   \<and> (generate_checkpoint_id ''a_step'' 1 = generate_checkpoint_id ''a'' 12) = (''a_step'' = ''a'' \<and> (1::int) = 12)"
proof -
  have s1: "str_nat (Suc 0) = ''1''"
    by (subst str_nat.simps) (simp add: digit_char_def)
  have s2: "str_nat 2 = ''2''"
    by (subst str_nat.simps) (simp add: digit_char_def)
  have s12: "str_nat 12 = ''12''"
    by (subst str_nat.simps) (simp add: s1 digit_char_def)
  have h1: "(0::int) \<le> 1" and h12: "(0::int) \<le> 12" by simp_all
  show ?thesis
    using generate_checkpoint_id_injective [OF h1 h12, of "''a_step''" "''a''"]
    by (simp add: generate_checkpoint_id_def str_int_def s1 s2 s12)
qed


subsection \<open>Lists, rows and listings\<close>


lemma find_rev_Some_iff:
  "find P (rev xs) = Some x \<longleftrightarrow> (\<exists>ys zs. xs = ys @ x # zs \<and> P x \<and> (\<forall>z\<in>set zs. \<not> P z))"
proof (induction xs rule: rev_induct)
  case Nil
  then show ?case by simp
next
  case (snoc a xs)
  show ?case
  proof (cases "P a")
    case True
    have "(\<exists>ys zs. xs @ [a] = ys @ x # zs \<and> P x \<and> (\<forall>z\<in>set zs. \<not> P z)) \<longleftrightarrow> x = a"
    proof
      assume "\<exists>ys zs. xs @ [a] = ys @ x # zs \<and> P x \<and> (\<forall>z\<in>set zs. \<not> P z)"
      then obtain ys zs where eq: "xs @ [a] = ys @ x # zs" and nz: "\<forall>z\<in>set zs. \<not> P z"
        by blast
      show "x = a"
      proof (cases zs rule: rev_cases)
        case Nil
        with eq show ?thesis by simp
      next
        case (snoc zs' z)
        with eq have "z = a" by simp
        with snoc nz True show ?thesis by simp
      qed
    next
      assume "x = a"
      with True have "xs @ [a] = xs @ x # [] \<and> P x \<and> (\<forall>z\<in>set []. \<not> P z)" by simp
      then show "\<exists>ys zs. xs @ [a] = ys @ x # zs \<and> P x \<and> (\<forall>z\<in>set zs. \<not> P z)" by blast
    qed
    with True show ?thesis by auto
  next
    case False
    have "(\<exists>ys zs. xs @ [a] = ys @ x # zs \<and> P x \<and> (\<forall>z\<in>set zs. \<not> P z))
      \<longleftrightarrow> (\<exists>ys zs. xs = ys @ x # zs \<and> P x \<and> (\<forall>z\<in>set zs. \<not> P z))"
    proof
      assume "\<exists>ys zs. xs @ [a] = ys @ x # zs \<and> P x \<and> (\<forall>z\<in>set zs. \<not> P z)"
      then obtain ys zs where eq: "xs @ [a] = ys @ x # zs" and px: "P x"
        and nz: "\<forall>z\<in>set zs. \<not> P z"
        by blast
      show "\<exists>ys zs. xs = ys @ x # zs \<and> P x \<and> (\<forall>z\<in>set zs. \<not> P z)"
      proof (cases zs rule: rev_cases)
        case Nil
        with eq px False show ?thesis by simp
      next
        case (snoc zs' z)
        with eq have "xs = ys @ x # zs'" by simp
        moreover from snoc nz have "\<forall>z\<in>set zs'. \<not> P z" by simp
        ultimately show ?thesis using px by blast
      qed
    next
      assume "\<exists>ys zs. xs = ys @ x # zs \<and> P x \<and> (\<forall>z\<in>set zs. \<not> P z)"
      then obtain ys zs where eq: "xs = ys @ x # zs" and px: "P x"
        and nz: "\<forall>z\<in>set zs. \<not> P z"
        by blast
      from eq have "xs @ [a] = ys @ x # (zs @ [a])" by simp
      moreover from nz False have "\<forall>z\<in>set (zs @ [a]). \<not> P z" by simp
      ultimately show "\<exists>ys zs. xs @ [a] = ys @ x # zs \<and> P x \<and> (\<forall>z\<in>set zs. \<not> P z)"
        using px by blast
    qed
    with False snoc.IH show ?thesis by simp
  qed
qed

lemma find_rev_None_iff: "find P (rev xs) = None \<longleftrightarrow> (\<forall>x\<in>set xs. \<not> P x)"
  by (auto simp: find_None_iff)

lemma sorted_last_greatest:
  assumes "sorted (map f xs)" and "x \<in> set xs"
  shows "f x \<le> f (last xs)"
proof -
  from assms(2) obtain i where i: "i < length xs" and x: "xs ! i = x"
    by (auto simp: in_set_conv_nth)
  then have ne: "xs \<noteq> []" by auto
  have "map f xs ! i \<le> map f xs ! (length xs - 1)"
    using assms(1) i by (intro sorted_nth_mono) simp_all
  with i x ne show ?thesis by (simp add: last_conv_nth)
qed

lemma row_to_checkpoint_columns:
  assumes "row_to_checkpoint loads r = Inr cp"
  shows "cp_id cp = col_id r" and "workflow_id cp = col_workflow_id r"
    and "step_name cp = col_step_name r" and "step_index cp = col_step_index r"
    and "CheckpointStatus_of (col_status r) = Inr (status cp)"
    and "error cp = col_error r" and "created_at cp = col_created_at r"
    and "updated_at cp = col_updated_at r"
  using assms by (auto simp: row_to_checkpoint_def split: sum.splits)

lemma rows_to_checkpoints_Inr:
  assumes "rows_to_checkpoints loads rows = Inr cps"
  shows "map Inr cps = map (row_to_checkpoint loads) rows"
  using assms by (induction rows arbitrary: cps) (auto split: sum.splits)

lemma rows_to_checkpoints_total:
  assumes "\<forall>r\<in>set rows. \<exists>cp. row_to_checkpoint loads r = Inr cp"
  shows "\<exists>cps. rows_to_checkpoints loads rows = Inr cps"
  using assms by (induction rows) (auto split: sum.splits)

lemma rows_to_checkpoints_nth:
  assumes "rows_to_checkpoints loads rows = Inr cps"
  shows "length cps = length rows"
    and "i < length rows \<Longrightarrow> row_to_checkpoint loads (rows ! i) = Inr (cps ! i)"
proof -
  have m: "map Inr cps = map (row_to_checkpoint loads) rows"
    using assms by (rule rows_to_checkpoints_Inr)
  then show l: "length cps = length rows"
    by (metis length_map)
  assume "i < length rows"
  with m l show "row_to_checkpoint loads (rows ! i) = Inr (cps ! i)"
    by (metis nth_map)
qed

lemma rows_to_checkpoints_step_index:
  assumes "rows_to_checkpoints loads rows = Inr cps"
  shows "map step_index cps = map col_step_index rows"
    and "map workflow_id cps = map col_workflow_id rows"
  using assms
  by (induction rows arbitrary: cps)
     (auto split: sum.splits dest: row_to_checkpoint_columns(2,4))

lemma backend_list_sorted:
  assumes "backend_list_workflow_checkpoints loads b wid = Inr cps"
  shows "sorted (map step_index cps)"
proof (cases b)
  case (Memory d)
  with assms show ?thesis
    by (auto simp: backend_list_workflow_checkpoints_def memory_list_workflow_checkpoints_def)
next
  case (SQLite t)
  with assms have "rows_to_checkpoints loads
      (sort_key col_step_index (filter (\<lambda>r. col_workflow_id r = wid) t)) = Inr cps"
    by (simp add: backend_list_workflow_checkpoints_def sqlite_list_workflow_checkpoints_def)
  then have "map step_index cps
      = map col_step_index (sort_key col_step_index (filter (\<lambda>r. col_workflow_id r = wid) t))"
    by (rule rows_to_checkpoints_step_index)
  then show ?thesis by simp
qed

lemma backend_list_workflow:
  assumes "backend_list_workflow_checkpoints loads b wid = Inr cps" and "c \<in> set cps"
  shows "workflow_id c = wid"
proof (cases b)
  case (Memory d)
  with assms show ?thesis
    by (auto simp: backend_list_workflow_checkpoints_def memory_list_workflow_checkpoints_def)
next
  case (SQLite t)
  with assms have "rows_to_checkpoints loads
      (sort_key col_step_index (filter (\<lambda>r. col_workflow_id r = wid) t)) = Inr cps"
    by (simp add: backend_list_workflow_checkpoints_def sqlite_list_workflow_checkpoints_def)
  then have "map workflow_id cps
      = map col_workflow_id (sort_key col_step_index (filter (\<lambda>r. col_workflow_id r = wid) t))"
    by (rule rows_to_checkpoints_step_index)
  then have "set (map workflow_id cps) \<subseteq> {wid}"
    by auto
  with assms(2) show ?thesis by auto
qed


subsection \<open>Status tags and the sample codec\<close>

lemma CheckpointStatus_of_value: "CheckpointStatus_of (status_value st) = Inr st"
  by (cases st) (simp_all add: CheckpointStatus_of_def)

lemma CheckpointStatus_of_Inr: "CheckpointStatus_of tag = Inr st \<longleftrightarrow> tag = status_value st"
  by (cases st) (auto simp: CheckpointStatus_of_def split: if_splits)

lemma sample_codec:
  "sample_dumps [] = ''{}''"
  "sample_loads ''{}'' = Inr []"
  "sample_loads (sample_dumps [(''x'', JInt 1)]) = Inr [(''x'', JInt 1)]"
  "sample_loads (sample_dumps [(''y'', JInt 2)]) = Inr [(''y'', JInt 2)]"
  "sample_dumps [(''x'', JInt 1)] \<noteq> []"
  "sample_dumps [(''y'', JInt 2)] \<noteq> []"
  by (simp_all add: sample_dumps_def sample_loads_def sample_documents_def)


subsection \<open>Saving and loading\<close>


lemma backend_save_fst: "fst (backend_save dumps now cp b) = cp\<lparr>updated_at := now\<rparr>"
  by (cases b) (simp_all add: backend_save_def memory_save_def sqlite_save_def Let_def)

lemma backend_save_Memory:
  "snd (backend_save dumps now cp (Memory d))
     = Memory (AList.update (cp_id cp) (cp\<lparr>updated_at := now\<rparr>) d)"
  by (simp add: backend_save_def memory_save_def Let_def)

lemma backend_save_SQLite:
  "snd (backend_save dumps now cp (SQLite t))
     = SQLite (filter (\<lambda>r. col_id r \<noteq> cp_id cp) t @ [checkpoint_to_row dumps (cp\<lparr>updated_at := now\<rparr>)])"
  by (simp add: backend_save_def sqlite_save_def Let_def insert_or_replace_def checkpoint_to_row_def)

lemma backend_save_keys_unique:
  assumes "keys_unique b"
  shows "keys_unique (snd (backend_save dumps now cp b))"
proof (cases b)
  case (Memory d)
  with assms show ?thesis
    by (simp add: backend_save_Memory keys_unique_def distinct_update)
next
  case (SQLite t)
  have "cp_id cp \<notin> col_id ` set (filter (\<lambda>r. col_id r \<noteq> cp_id cp) t)" by auto
  moreover have "distinct (map col_id (filter (\<lambda>r. col_id r \<noteq> cp_id cp) t))"
    using assms SQLite by (simp add: keys_unique_def distinct_map_filter)
  ultimately show ?thesis
    using SQLite by (simp add: backend_save_SQLite keys_unique_def checkpoint_to_row_def)
qed

lemma memory_load_after_save:
  "backend_load loads (snd (backend_save dumps now cp (Memory d))) (cp_id cp)
     = Inr (Some (cp\<lparr>updated_at := now\<rparr>))"
  by (simp add: backend_save_Memory backend_load_def memory_load_def update_conv')

lemma find_after_replace:
  assumes "col_id row = k"
  shows "find (\<lambda>r. col_id r = k) (filter (\<lambda>r. col_id r \<noteq> k) t @ [row]) = Some row"
  using assms by (induction t) simp_all

text \<open>What \<open>_row_to_checkpoint\<close> makes of the row that \<open>save\<close> wrote: the checkpoint, with an
  empty \<open>output_data\<close> dictionary turned into \<open>None\<close>.\<close>

lemma row_roundtrip:
  assumes "payloads_representable dumps loads cp"
  shows "row_to_checkpoint loads (checkpoint_to_row dumps cp)
     = Inr (cp\<lparr>output_data := (if output_data cp = Some [] then None else output_data cp)\<rparr>)"
proof -
  from assms have i: "loads (dumps (input_data cp)) = Inr (input_data cp)"
    and m: "dumps (metadata cp) \<noteq> []" "loads (dumps (metadata cp)) = Inr (metadata cp)"
    by (simp_all add: payloads_representable_def json_roundtrips_def)
  show ?thesis
  proof (cases "output_data cp")
    case None
    then show ?thesis
      by (simp add: row_to_checkpoint_def checkpoint_to_row_def CheckpointStatus_of_value i m)
  next
    case (Some out)
    show ?thesis
    proof (cases "out = []")
      case True
      with Some show ?thesis
        by (simp add: row_to_checkpoint_def checkpoint_to_row_def CheckpointStatus_of_value i m)
    next
      case False
      from assms Some have "dumps out \<noteq> []" "loads (dumps out) = Inr out"
        by (simp_all add: payloads_representable_def json_roundtrips_def)
      with Some False show ?thesis
        by (simp add: row_to_checkpoint_def checkpoint_to_row_def CheckpointStatus_of_value i m)
    qed
  qed
qed

lemma sqlite_load_after_save:
  assumes "payloads_representable dumps loads cp"
  shows "backend_load loads (snd (backend_save dumps now cp (SQLite t))) (cp_id cp)
     = Inr (Some (cp\<lparr>updated_at := now,
                       output_data := (if output_data cp = Some [] then None else output_data cp)\<rparr>))"
proof -
  let ?cp = "cp\<lparr>updated_at := now\<rparr>"
  have k: "col_id (checkpoint_to_row dumps ?cp) = cp_id cp"
    by (simp add: checkpoint_to_row_def)
  have r: "payloads_representable dumps loads ?cp"
    using assms by (simp add: payloads_representable_def)
  show ?thesis
    by (simp add: backend_save_SQLite backend_load_def sqlite_load_def
        find_after_replace [OF k] row_roundtrip [OF r])
qed


subsection \<open>The state transitions\<close>


lemma checkpoint_complete_fst:
  "fst (checkpoint_complete dumps now self cp out)
     = cp\<lparr>status := COMPLETED, output_data := Some out, updated_at := now\<rparr>"
  by (simp add: checkpoint_complete_def backend_save_fst)

lemma checkpoint_failed_fst:
  "fst (checkpoint_failed dumps now self cp err)
     = cp\<lparr>status := FAILED, error := Some err, updated_at := now\<rparr>"
  by (simp add: checkpoint_failed_def backend_save_fst)

lemma mark_recovered_fst:
  "fst (mark_recovered dumps now self cp) = cp\<lparr>status := RECOVERED, updated_at := now\<rparr>"
  by (simp add: mark_recovered_def backend_save_fst)

lemma checkpoint_complete_snd:
  "backend (snd (checkpoint_complete dumps now self cp out))
     = snd (backend_save dumps now (cp\<lparr>status := COMPLETED, output_data := Some out\<rparr>) (backend self))"
  by (simp add: checkpoint_complete_def)

lemma checkpoint_failed_snd:
  "backend (snd (checkpoint_failed dumps now self cp err))
     = snd (backend_save dumps now (cp\<lparr>status := FAILED, error := Some err\<rparr>) (backend self))"
  by (simp add: checkpoint_failed_def)

lemma mark_recovered_snd:
  "backend (snd (mark_recovered dumps now self cp))
     = snd (backend_save dumps now (cp\<lparr>status := RECOVERED\<rparr>) (backend self))"
  by (simp add: mark_recovered_def)

text \<open>The copy persisted by a completion or a failure.\<close>

lemma persisted_complete_memory:
  "backend_load loads (backend (snd (checkpoint_complete dumps now (self\<lparr>backend := Memory d\<rparr>) cp out))) (cp_id cp)
     = Inr (Some (fst (checkpoint_complete dumps now (self\<lparr>backend := Memory d\<rparr>) cp out)))"
  using memory_load_after_save [of loads dumps now "cp\<lparr>status := COMPLETED, output_data := Some out\<rparr>" d]
  by (simp add: checkpoint_complete_snd checkpoint_complete_fst)

lemma persisted_failed_memory:
  "backend_load loads (backend (snd (checkpoint_failed dumps now (self\<lparr>backend := Memory d\<rparr>) cp err))) (cp_id cp)
     = Inr (Some (fst (checkpoint_failed dumps now (self\<lparr>backend := Memory d\<rparr>) cp err)))"
  using memory_load_after_save [of loads dumps now "cp\<lparr>status := FAILED, error := Some err\<rparr>" d]
  by (simp add: checkpoint_failed_snd checkpoint_failed_fst)

lemma persisted_complete_sqlite:
  assumes "payloads_representable dumps loads (cp\<lparr>output_data := Some out\<rparr>)"
  shows "backend_load loads (backend (snd (checkpoint_complete dumps now (self\<lparr>backend := SQLite t\<rparr>) cp out))) (cp_id cp)
     = Inr (Some (cp\<lparr>status := COMPLETED, updated_at := now,
                       output_data := (if out = [] then None else Some out)\<rparr>))"
proof -
  have "payloads_representable dumps loads (cp\<lparr>status := COMPLETED, output_data := Some out\<rparr>)"
    using assms by (simp add: payloads_representable_def)
  from sqlite_load_after_save [OF this, of now t] show ?thesis
    by (simp add: checkpoint_complete_snd)
qed

lemma persisted_failed_sqlite:
  assumes "payloads_representable dumps loads cp"
  shows "backend_load loads (backend (snd (checkpoint_failed dumps now (self\<lparr>backend := SQLite t\<rparr>) cp err))) (cp_id cp)
     = Inr (Some (cp\<lparr>status := FAILED, error := Some err, updated_at := now,
                       output_data := (if output_data cp = Some [] then None else output_data cp)\<rparr>))"
proof -
  have "payloads_representable dumps loads (cp\<lparr>status := FAILED, error := Some err\<rparr>)"
    using assms by (simp add: payloads_representable_def)
  from sqlite_load_after_save [OF this, of now t] show ?thesis
    by (simp add: checkpoint_failed_snd)
qed


subsection \<open>Starting a step\<close>


lemma checkpoint_start_fst:
  "fst (checkpoint_start dumps (now_created, now_updated, now_saved) self wid name idx inp md)
     = \<lparr>cp_id = generate_checkpoint_id wid idx, workflow_id = wid, step_name = name,
        step_index = idx, status = IN_PROGRESS, input_data = inp, output_data = None,
        error = None, created_at = now_created, updated_at = now_saved,
        metadata = (case md of None \<Rightarrow> [] | Some m \<Rightarrow> m)\<rparr>"
  by (simp add: checkpoint_start_def backend_save_fst split: option.splits)

lemma checkpoint_start_snd:
  "backend (snd (checkpoint_start dumps (now_created, now_updated, now_saved) self wid name idx inp md))
     = snd (backend_save dumps now_saved
         \<lparr>cp_id = generate_checkpoint_id wid idx, workflow_id = wid, step_name = name,
          step_index = idx, status = IN_PROGRESS, input_data = inp, output_data = None,
          error = None, created_at = now_created, updated_at = now_updated,
          metadata = (case md of None \<Rightarrow> [] | Some m \<Rightarrow> m)\<rparr> (backend self))"
  by (simp add: checkpoint_start_def split: option.splits)

lemma checkpoint_start_cp_id:
  "cp_id (fst (checkpoint_start dumps clock self wid name idx inp md)) = generate_checkpoint_id wid idx"
  by (cases clock) (simp add: checkpoint_start_fst)

lemma count_list_distinct:
  assumes "distinct xs" and "x \<in> set xs"
  shows "count_list xs x = 1"
  using assms by (induction xs) auto

lemma backend_save_stored_ids:
  "set (stored_ids (snd (backend_save dumps now cp b))) = insert (cp_id cp) (set (stored_ids b))"
proof (cases b)
  case (Memory d)
  then show ?thesis
    by (simp add: backend_save_Memory stored_ids_def dom_update)
next
  case (SQLite t)
  then show ?thesis
    by (auto simp: backend_save_SQLite stored_ids_def checkpoint_to_row_def)
qed

lemma backend_save_one_record:
  assumes "keys_unique b"
  shows "count_list (stored_ids (snd (backend_save dumps now cp b))) (cp_id cp) = 1"
proof -
  have "keys_unique (snd (backend_save dumps now cp b))"
    using assms by (rule backend_save_keys_unique)
  then have "distinct (stored_ids (snd (backend_save dumps now cp b)))"
    by (cases "snd (backend_save dumps now cp b)") (simp_all add: keys_unique_def stored_ids_def)
  moreover have "cp_id cp \<in> set (stored_ids (snd (backend_save dumps now cp b)))"
    by (simp add: backend_save_stored_ids)
  ultimately show ?thesis by (rule count_list_distinct)
qed

lemma backend_load_after_save:
  assumes "case b of Memory d \<Rightarrow> True | SQLite t \<Rightarrow> payloads_representable dumps loads cp"
    and "output_data cp \<noteq> Some []"
  shows "backend_load loads (snd (backend_save dumps now cp b)) (cp_id cp)
     = Inr (Some (cp\<lparr>updated_at := now\<rparr>))"
proof (cases b)
  case (Memory d)
  then show ?thesis by (simp add: memory_load_after_save)
next
  case (SQLite t)
  with assms(1) have "payloads_representable dumps loads cp" by simp
  from sqlite_load_after_save [OF this, of now t] assms(2) SQLite show ?thesis
    by simp
qed

lemma generate_checkpoint_id_wf_0: "generate_checkpoint_id ''wf'' 0 = ''wf_step_0''"
proof -
  have "str_nat 0 = ''0''"
    by (subst str_nat.simps) (simp add: digit_char_def)
  then show ?thesis
    by (simp add: generate_checkpoint_id_def str_int_def)
qed


subsection \<open>Recovery-point selection\<close>


lemma get_recovery_point_unfold:
  assumes "backend_list_workflow_checkpoints loads (backend self) wid = Inr cps"
  shows "get_recovery_point loads (self\<lparr>recovery_mode := RESUME_FROM_LAST\<rparr>) wid
           = Inr (if cps = [] then None else Some (last cps))"
    and "get_recovery_point loads (self\<lparr>recovery_mode := RESTART_TASK\<rparr>) wid
           = Inr (if cps = [] then None
                  else case find (\<lambda>cp. status cp = FAILED \<or> status cp = IN_PROGRESS) (rev cps) of
                         Some cp \<Rightarrow> Some cp | None \<Rightarrow> Some (last cps))"
    and "get_recovery_point loads (self\<lparr>recovery_mode := SKIP_FAILED\<rparr>) wid
           = Inr (find (\<lambda>cp. status cp = COMPLETED) (rev cps))"
    and "get_recovery_point loads (self\<lparr>recovery_mode := MANUAL\<rparr>) wid = Inr None"
  using assms by (simp_all add: get_recovery_point_def split: option.splits)

text \<open>The volatile backend always lists, so the selection always returns on it; when the
  durable backend fails to convert a row, every mode but \<open>MANUAL\<close> raises what the listing
  raised.\<close>

lemma get_recovery_point_memory_returns:
  "\<exists>r. get_recovery_point loads (self\<lparr>backend := Memory d\<rparr>) wid = Inr r"
  by (simp add: get_recovery_point_def backend_list_workflow_checkpoints_def split: option.splits)

lemma get_recovery_point_listing_raises:
  assumes "backend_list_workflow_checkpoints loads (backend self) wid = Inl e"
  shows "get_recovery_point loads self wid = (if recovery_mode self = MANUAL then Inr None else Inl e)"
  using assms by (simp add: get_recovery_point_def)

text \<open>
  Claim C1. Let \<open>cps\<close> be the listing of the workflow's checkpoints (ascending by step
  index, all of the given workflow). Under \<open>RESUME_FROM_LAST\<close> the recovery point is the
  last entry, which has the greatest step index, and absent on the empty listing. Under
  \<open>RESTART_TASK\<close> it is the entry with status \<open>FAILED\<close> or \<open>IN_PROGRESS\<close> after which no
  entry has such a status; without such an entry it is the last entry, absent on the
  empty listing. Under \<open>SKIP_FAILED\<close> it is the \<open>COMPLETED\<close> entry after which no entry is
  \<open>COMPLETED\<close>, and absent when no entry is \<open>COMPLETED\<close>. Under \<open>MANUAL\<close> it is absent.
\<close>

theorem get_recovery_point_branches:
  assumes "backend_list_workflow_checkpoints loads (backend self) wid = Inr cps"
  shows "sorted (map step_index cps) \<and> (\<forall>c\<in>set cps. workflow_id c = wid)
    \<and> (\<forall>c\<in>set cps. step_index c \<le> step_index (last cps))
    \<and> get_recovery_point loads (self\<lparr>recovery_mode := RESUME_FROM_LAST\<rparr>) wid
        = Inr (if cps = [] then None else Some (last cps))
    \<and> ((\<exists>c\<in>set cps. status c = FAILED \<or> status c = IN_PROGRESS) \<longrightarrow>
        (\<exists>ys c zs. cps = ys @ c # zs \<and> (status c = FAILED \<or> status c = IN_PROGRESS)
           \<and> (\<forall>z\<in>set zs. status z \<noteq> FAILED \<and> status z \<noteq> IN_PROGRESS)
           \<and> get_recovery_point loads (self\<lparr>recovery_mode := RESTART_TASK\<rparr>) wid = Inr (Some c)))
    \<and> ((\<forall>c\<in>set cps. status c \<noteq> FAILED \<and> status c \<noteq> IN_PROGRESS) \<longrightarrow>
        get_recovery_point loads (self\<lparr>recovery_mode := RESTART_TASK\<rparr>) wid
          = Inr (if cps = [] then None else Some (last cps)))
    \<and> ((\<exists>c\<in>set cps. status c = COMPLETED) \<longrightarrow>
        (\<exists>ys c zs. cps = ys @ c # zs \<and> status c = COMPLETED
           \<and> (\<forall>z\<in>set zs. status z \<noteq> COMPLETED)
           \<and> get_recovery_point loads (self\<lparr>recovery_mode := SKIP_FAILED\<rparr>) wid = Inr (Some c)))
    \<and> ((\<forall>c\<in>set cps. status c \<noteq> COMPLETED) \<longrightarrow>
        get_recovery_point loads (self\<lparr>recovery_mode := SKIP_FAILED\<rparr>) wid = Inr None)
    \<and> get_recovery_point loads (self\<lparr>recovery_mode := MANUAL\<rparr>) wid = Inr None"
proof -
  note u = get_recovery_point_unfold [OF assms]
  let ?R = "\<lambda>cp. status cp = FAILED \<or> status cp = IN_PROGRESS"
  let ?S = "\<lambda>cp. status cp = COMPLETED"
  have sorted: "sorted (map step_index cps)"
    using assms by (rule backend_list_sorted)
  have wf: "\<forall>c\<in>set cps. workflow_id c = wid"
    using assms by (blast intro: backend_list_workflow)
  have greatest: "\<forall>c\<in>set cps. step_index c \<le> step_index (last cps)"
    using sorted by (blast intro: sorted_last_greatest)
  have restart_hit: "\<exists>ys c zs. cps = ys @ c # zs \<and> ?R c \<and> (\<forall>z\<in>set zs. status z \<noteq> FAILED \<and> status z \<noteq> IN_PROGRESS)
      \<and> get_recovery_point loads (self\<lparr>recovery_mode := RESTART_TASK\<rparr>) wid = Inr (Some c)"
    if ex: "\<exists>c\<in>set cps. ?R c"
  proof -
    from ex have "find ?R (rev cps) \<noteq> None"
      by (simp only: find_rev_None_iff) blast
    then obtain c where c: "find ?R (rev cps) = Some c" by blast
    then obtain ys zs where d: "cps = ys @ c # zs" "?R c" "\<forall>z\<in>set zs. \<not> ?R z"
      unfolding find_rev_Some_iff by blast
    from d(1) have "cps \<noteq> []" by simp
    with c have "get_recovery_point loads (self\<lparr>recovery_mode := RESTART_TASK\<rparr>) wid = Inr (Some c)"
      by (simp add: u(2))
    with d show ?thesis by blast
  qed
  have restart_miss: "get_recovery_point loads (self\<lparr>recovery_mode := RESTART_TASK\<rparr>) wid
          = Inr (if cps = [] then None else Some (last cps))"
    if no: "\<forall>c\<in>set cps. status c \<noteq> FAILED \<and> status c \<noteq> IN_PROGRESS"
  proof -
    from no have "find ?R (rev cps) = None"
      by (simp only: find_rev_None_iff) blast
    then show ?thesis by (simp add: u(2))
  qed
  have skip_hit: "\<exists>ys c zs. cps = ys @ c # zs \<and> ?S c \<and> (\<forall>z\<in>set zs. status z \<noteq> COMPLETED)
      \<and> get_recovery_point loads (self\<lparr>recovery_mode := SKIP_FAILED\<rparr>) wid = Inr (Some c)"
    if ex: "\<exists>c\<in>set cps. ?S c"
  proof -
    from ex have "find ?S (rev cps) \<noteq> None"
      by (simp only: find_rev_None_iff) blast
    then obtain c where c: "find ?S (rev cps) = Some c" by blast
    then obtain ys zs where d: "cps = ys @ c # zs" "?S c" "\<forall>z\<in>set zs. \<not> ?S z"
      unfolding find_rev_Some_iff by blast
    from c have "get_recovery_point loads (self\<lparr>recovery_mode := SKIP_FAILED\<rparr>) wid = Inr (Some c)"
      by (simp add: u(3))
    with d show ?thesis by blast
  qed
  have skip_miss: "get_recovery_point loads (self\<lparr>recovery_mode := SKIP_FAILED\<rparr>) wid = Inr None"
    if no: "\<forall>c\<in>set cps. status c \<noteq> COMPLETED"
  proof -
    from no have "find ?S (rev cps) = None"
      by (simp only: find_rev_None_iff)
    then show ?thesis by (simp add: u(3))
  qed
  show ?thesis
    using sorted wf greatest u(1) u(4) restart_hit restart_miss skip_hit skip_miss
    by blast
qed



theorem get_recovery_point_branches_witness:
  "backend_list_workflow_checkpoints sample_loads
      (backend (sample_checkpointer
         (Memory [(''wf_step_1'', sample_checkpoint ''wf_step_1'' ''wf'' 1 FAILED),
                  (''other_step_0'', sample_checkpoint ''other_step_0'' ''other'' 0 IN_PROGRESS),
                  (''wf_step_0'', sample_checkpoint ''wf_step_0'' ''wf'' 0 COMPLETED)]) MANUAL)) ''wf''
     = Inr [sample_checkpoint ''wf_step_0'' ''wf'' 0 COMPLETED, sample_checkpoint ''wf_step_1'' ''wf'' 1 FAILED]
   \<and> get_recovery_point sample_loads
      (sample_checkpointer
         (Memory [(''wf_step_1'', sample_checkpoint ''wf_step_1'' ''wf'' 1 FAILED),
                  (''other_step_0'', sample_checkpoint ''other_step_0'' ''other'' 0 IN_PROGRESS),
                  (''wf_step_0'', sample_checkpoint ''wf_step_0'' ''wf'' 0 COMPLETED)]) RESUME_FROM_LAST) ''wf''
     = Inr (Some (sample_checkpoint ''wf_step_1'' ''wf'' 1 FAILED))
   \<and> get_recovery_point sample_loads
      (sample_checkpointer
         (Memory [(''wf_step_1'', sample_checkpoint ''wf_step_1'' ''wf'' 1 FAILED),
                  (''other_step_0'', sample_checkpoint ''other_step_0'' ''other'' 0 IN_PROGRESS),
                  (''wf_step_0'', sample_checkpoint ''wf_step_0'' ''wf'' 0 COMPLETED)]) RESTART_TASK) ''wf''
     = Inr (Some (sample_checkpoint ''wf_step_1'' ''wf'' 1 FAILED))
   \<and> get_recovery_point sample_loads
      (sample_checkpointer
         (Memory [(''wf_step_1'', sample_checkpoint ''wf_step_1'' ''wf'' 1 FAILED),
                  (''other_step_0'', sample_checkpoint ''other_step_0'' ''other'' 0 IN_PROGRESS),
                  (''wf_step_0'', sample_checkpoint ''wf_step_0'' ''wf'' 0 COMPLETED)]) SKIP_FAILED) ''wf''
     = Inr (Some (sample_checkpoint ''wf_step_0'' ''wf'' 0 COMPLETED))
   \<and> get_recovery_point sample_loads
      (sample_checkpointer
         (Memory [(''wf_step_1'', sample_checkpoint ''wf_step_1'' ''wf'' 1 FAILED),
                  (''other_step_0'', sample_checkpoint ''other_step_0'' ''other'' 0 IN_PROGRESS),
                  (''wf_step_0'', sample_checkpoint ''wf_step_0'' ''wf'' 0 COMPLETED)]) MANUAL) ''wf''
     = Inr None
   \<and> get_recovery_point sample_loads
      (sample_checkpointer
         (Memory [(''wf_step_1'', sample_checkpoint ''wf_step_1'' ''wf'' 1 FAILED),
                  (''other_step_0'', sample_checkpoint ''other_step_0'' ''other'' 0 IN_PROGRESS),
                  (''wf_step_0'', sample_checkpoint ''wf_step_0'' ''wf'' 0 COMPLETED)]) RESTART_TASK) ''other''
     = Inr (Some (sample_checkpoint ''other_step_0'' ''other'' 0 IN_PROGRESS))
   \<and> get_recovery_point sample_loads
      (sample_checkpointer
         (Memory [(''wf_step_1'', sample_checkpoint ''wf_step_1'' ''wf'' 1 FAILED),
                  (''other_step_0'', sample_checkpoint ''other_step_0'' ''other'' 0 IN_PROGRESS),
                  (''wf_step_0'', sample_checkpoint ''wf_step_0'' ''wf'' 0 COMPLETED)]) SKIP_FAILED) ''other''
     = Inr None"
proof -
  let ?d = "[(''wf_step_1'', sample_checkpoint ''wf_step_1'' ''wf'' 1 FAILED),
             (''other_step_0'', sample_checkpoint ''other_step_0'' ''other'' 0 IN_PROGRESS),
             (''wf_step_0'', sample_checkpoint ''wf_step_0'' ''wf'' 0 COMPLETED)]"
  let ?self = "sample_checkpointer (Memory ?d) MANUAL"
  have h: "backend_list_workflow_checkpoints sample_loads (backend ?self) ''wf''
     = Inr [sample_checkpoint ''wf_step_0'' ''wf'' 0 COMPLETED, sample_checkpoint ''wf_step_1'' ''wf'' 1 FAILED]"
    by (simp add: backend_list_workflow_checkpoints_def memory_list_workflow_checkpoints_def
        sample_checkpointer_def sample_checkpoint_def)
  have h': "backend_list_workflow_checkpoints sample_loads (backend ?self) ''other''
     = Inr [sample_checkpoint ''other_step_0'' ''other'' 0 IN_PROGRESS]"
    by (simp add: backend_list_workflow_checkpoints_def memory_list_workflow_checkpoints_def
        sample_checkpointer_def sample_checkpoint_def)
  note t = get_recovery_point_branches [OF h]
  from t have resume: "get_recovery_point sample_loads (sample_checkpointer (Memory ?d) RESUME_FROM_LAST) ''wf''
      = Inr (Some (sample_checkpoint ''wf_step_1'' ''wf'' 1 FAILED))"
    by (simp add: sample_checkpointer_def)
  from t have manual: "get_recovery_point sample_loads (sample_checkpointer (Memory ?d) MANUAL) ''wf'' = Inr None"
    by (simp add: sample_checkpointer_def)
  have restart: "get_recovery_point sample_loads (sample_checkpointer (Memory ?d) RESTART_TASK) ''wf''
      = Inr (Some (sample_checkpoint ''wf_step_1'' ''wf'' 1 FAILED))"
    using get_recovery_point_unfold(2) [OF h]
    by (simp add: sample_checkpointer_def sample_checkpoint_def)
  have skip: "get_recovery_point sample_loads (sample_checkpointer (Memory ?d) SKIP_FAILED) ''wf''
      = Inr (Some (sample_checkpoint ''wf_step_0'' ''wf'' 0 COMPLETED))"
    using get_recovery_point_unfold(3) [OF h]
    by (simp add: sample_checkpointer_def sample_checkpoint_def)
  have restart': "get_recovery_point sample_loads (sample_checkpointer (Memory ?d) RESTART_TASK) ''other''
      = Inr (Some (sample_checkpoint ''other_step_0'' ''other'' 0 IN_PROGRESS))"
    using get_recovery_point_unfold(2) [OF h']
    by (simp add: sample_checkpointer_def sample_checkpoint_def)
  have skip': "get_recovery_point sample_loads (sample_checkpointer (Memory ?d) SKIP_FAILED) ''other'' = Inr None"
    using get_recovery_point_unfold(3) [OF h']
    by (simp add: sample_checkpointer_def sample_checkpoint_def)
  show ?thesis
    by (intro conjI) (rule h resume restart skip manual restart' skip')+
qed


subsection \<open>Starting the same step twice\<close>

text \<open>
  Claim C2, as the code has it. A second \<open>checkpoint_start\<close> with the same workflow id and
  step index overwrites the record of the first: the store holds one record under that id
  and no id that it did not hold before, and loading the id returns the record the second
  call constructed, with the second call's step name, input and metadata, status
  \<open>IN_PROGRESS\<close>, and \<open>created_at\<close> equal to the clock reading of the second call's
  construction. (The store holds each key once; on the durable backend the payloads of the
  second call are JSON-representable.)
\<close>

theorem checkpoint_start_twice_overwrites:
  assumes "keys_unique (backend self)"
    and "checkpoint_start dumps (created1, updated1, saved1) self wid name1 idx inp1 md1 = (cp1, self1)"
    and "checkpoint_start dumps (created2, updated2, saved2) self1 wid name2 idx inp2 md2 = (cp2, self2)"
    and "case backend self of Memory d \<Rightarrow> True | SQLite t \<Rightarrow> payloads_representable dumps loads cp2"
  shows "count_list (stored_ids (backend self2)) (generate_checkpoint_id wid idx) = 1
    \<and> set (stored_ids (backend self2)) = set (stored_ids (backend self1))
    \<and> backend_load loads (backend self2) (generate_checkpoint_id wid idx) = Inr (Some cp2)
    \<and> cp2 = \<lparr>cp_id = generate_checkpoint_id wid idx, workflow_id = wid, step_name = name2,
              step_index = idx, status = IN_PROGRESS, input_data = inp2, output_data = None,
              error = None, created_at = created2, updated_at = saved2,
              metadata = (case md2 of None \<Rightarrow> [] | Some m \<Rightarrow> m)\<rparr>
    \<and> created_at cp1 = created1 \<and> created_at cp2 = created2"
proof -
  let ?id = "generate_checkpoint_id wid idx"
  let ?new1 = "\<lparr>cp_id = ?id, workflow_id = wid, step_name = name1,
          step_index = idx, status = IN_PROGRESS, input_data = inp1, output_data = None,
          error = None, created_at = created1, updated_at = updated1,
          metadata = (case md1 of None \<Rightarrow> [] | Some m \<Rightarrow> m)\<rparr>"
  let ?new2 = "\<lparr>cp_id = ?id, workflow_id = wid, step_name = name2,
          step_index = idx, status = IN_PROGRESS, input_data = inp2, output_data = None,
          error = None, created_at = created2, updated_at = updated2,
          metadata = (case md2 of None \<Rightarrow> [] | Some m \<Rightarrow> m)\<rparr>"
  have cp1: "cp1 = ?new1\<lparr>updated_at := saved1\<rparr>"
    using checkpoint_start_fst [of dumps created1 updated1 saved1 self wid name1 idx inp1 md1] assms(2)
    by simp
  have b1: "backend self1 = snd (backend_save dumps saved1 ?new1 (backend self))"
    using checkpoint_start_snd [of dumps created1 updated1 saved1 self wid name1 idx inp1 md1] assms(2)
    by simp
  have cp2: "cp2 = ?new2\<lparr>updated_at := saved2\<rparr>"
    using checkpoint_start_fst [of dumps created2 updated2 saved2 self1 wid name2 idx inp2 md2] assms(3)
    by simp
  have b2: "backend self2 = snd (backend_save dumps saved2 ?new2 (backend self1))"
    using checkpoint_start_snd [of dumps created2 updated2 saved2 self1 wid name2 idx inp2 md2] assms(3)
    by simp
  have u1: "keys_unique (backend self1)"
    unfolding b1 using assms(1) by (rule backend_save_keys_unique)
  have one: "count_list (stored_ids (backend self2)) ?id = 1"
    unfolding b2 using backend_save_one_record [OF u1, of dumps saved2 ?new2] by simp
  have "?id \<in> set (stored_ids (backend self1))"
    unfolding b1 by (simp add: backend_save_stored_ids)
  then have same: "set (stored_ids (backend self2)) = set (stored_ids (backend self1))"
    unfolding b2 by (auto simp: backend_save_stored_ids)
  have kind: "(case backend self1 of Memory d \<Rightarrow> True | SQLite t \<Rightarrow> payloads_representable dumps loads ?new2)"
  proof (cases "backend self")
    case (Memory d)
    then show ?thesis unfolding b1 by (simp add: backend_save_Memory)
  next
    case (SQLite t)
    with assms(4) have "payloads_representable dumps loads cp2" by simp
    then have "payloads_representable dumps loads ?new2"
      unfolding cp2 by (simp add: payloads_representable_def)
    with SQLite show ?thesis unfolding b1 by (simp add: backend_save_SQLite)
  qed
  have "backend_load loads (backend self2) (cp_id ?new2) = Inr (Some (?new2\<lparr>updated_at := saved2\<rparr>))"
    unfolding b2 using kind by (rule backend_load_after_save) simp
  then have load: "backend_load loads (backend self2) ?id = Inr (Some cp2)"
    unfolding cp2 by simp
  from one same load cp1 cp2 show ?thesis by simp
qed



theorem checkpoint_start_twice_overwrites_witness:
  "keys_unique (backend (sample_checkpointer (SQLite []) MANUAL))
   \<and> checkpoint_start sample_dumps (''2024-01-01T00:00:00'', ''2024-01-01T00:00:00'', ''2024-01-01T00:00:01'')
        (sample_checkpointer (SQLite []) MANUAL) ''wf'' ''first'' 0 [] None
      = (\<lparr>cp_id = ''wf_step_0'', workflow_id = ''wf'', step_name = ''first'', step_index = 0,
          status = IN_PROGRESS, input_data = [], output_data = None, error = None,
          created_at = ''2024-01-01T00:00:00'', updated_at = ''2024-01-01T00:00:01'', metadata = []\<rparr>,
         sample_checkpointer (SQLite [checkpoint_to_row sample_dumps
           \<lparr>cp_id = ''wf_step_0'', workflow_id = ''wf'', step_name = ''first'', step_index = 0,
            status = IN_PROGRESS, input_data = [], output_data = None, error = None,
            created_at = ''2024-01-01T00:00:00'', updated_at = ''2024-01-01T00:00:01'', metadata = []\<rparr>]) MANUAL)
   \<and> checkpoint_start sample_dumps (''2024-01-01T00:00:05'', ''2024-01-01T00:00:05'', ''2024-01-01T00:00:06'')
        (sample_checkpointer (SQLite [checkpoint_to_row sample_dumps
           \<lparr>cp_id = ''wf_step_0'', workflow_id = ''wf'', step_name = ''first'', step_index = 0,
            status = IN_PROGRESS, input_data = [], output_data = None, error = None,
            created_at = ''2024-01-01T00:00:00'', updated_at = ''2024-01-01T00:00:01'', metadata = []\<rparr>]) MANUAL)
        ''wf'' ''second'' 0 [(''x'', JInt 1)] (Some [(''y'', JInt 2)])
      = (\<lparr>cp_id = ''wf_step_0'', workflow_id = ''wf'', step_name = ''second'', step_index = 0,
          status = IN_PROGRESS, input_data = [(''x'', JInt 1)], output_data = None, error = None,
          created_at = ''2024-01-01T00:00:05'', updated_at = ''2024-01-01T00:00:06'',
          metadata = [(''y'', JInt 2)]\<rparr>,
         sample_checkpointer (SQLite [checkpoint_to_row sample_dumps
           \<lparr>cp_id = ''wf_step_0'', workflow_id = ''wf'', step_name = ''second'', step_index = 0,
            status = IN_PROGRESS, input_data = [(''x'', JInt 1)], output_data = None, error = None,
            created_at = ''2024-01-01T00:00:05'', updated_at = ''2024-01-01T00:00:06'',
            metadata = [(''y'', JInt 2)]\<rparr>]) MANUAL)
   \<and> payloads_representable sample_dumps sample_loads
        \<lparr>cp_id = ''wf_step_0'', workflow_id = ''wf'', step_name = ''second'', step_index = 0,
          status = IN_PROGRESS, input_data = [(''x'', JInt 1)], output_data = None, error = None,
          created_at = ''2024-01-01T00:00:05'', updated_at = ''2024-01-01T00:00:06'',
          metadata = [(''y'', JInt 2)]\<rparr>
   \<and> count_list (stored_ids (SQLite [checkpoint_to_row sample_dumps
           \<lparr>cp_id = ''wf_step_0'', workflow_id = ''wf'', step_name = ''second'', step_index = 0,
            status = IN_PROGRESS, input_data = [(''x'', JInt 1)], output_data = None, error = None,
            created_at = ''2024-01-01T00:00:05'', updated_at = ''2024-01-01T00:00:06'',
            metadata = [(''y'', JInt 2)]\<rparr>])) ''wf_step_0'' = 1
   \<and> backend_load sample_loads (SQLite [checkpoint_to_row sample_dumps
           \<lparr>cp_id = ''wf_step_0'', workflow_id = ''wf'', step_name = ''second'', step_index = 0,
            status = IN_PROGRESS, input_data = [(''x'', JInt 1)], output_data = None, error = None,
            created_at = ''2024-01-01T00:00:05'', updated_at = ''2024-01-01T00:00:06'',
            metadata = [(''y'', JInt 2)]\<rparr>]) ''wf_step_0''
      = Inr (Some \<lparr>cp_id = ''wf_step_0'', workflow_id = ''wf'', step_name = ''second'', step_index = 0,
          status = IN_PROGRESS, input_data = [(''x'', JInt 1)], output_data = None, error = None,
          created_at = ''2024-01-01T00:00:05'', updated_at = ''2024-01-01T00:00:06'',
          metadata = [(''y'', JInt 2)]\<rparr>)"
proof -
  let ?cp1 = "\<lparr>cp_id = ''wf_step_0'', workflow_id = ''wf'', step_name = ''first'', step_index = 0,
          status = IN_PROGRESS, input_data = [], output_data = None, error = None,
          created_at = ''2024-01-01T00:00:00'', updated_at = ''2024-01-01T00:00:01'', metadata = []\<rparr>"
  let ?cp2 = "\<lparr>cp_id = ''wf_step_0'', workflow_id = ''wf'', step_name = ''second'', step_index = 0,
          status = IN_PROGRESS, input_data = [(''x'', JInt 1)], output_data = None, error = None,
          created_at = ''2024-01-01T00:00:05'', updated_at = ''2024-01-01T00:00:06'',
          metadata = [(''y'', JInt 2)]\<rparr>"
  let ?s0 = "sample_checkpointer (SQLite []) MANUAL"
  let ?s1 = "sample_checkpointer (SQLite [checkpoint_to_row sample_dumps ?cp1]) MANUAL"
  let ?s2 = "sample_checkpointer (SQLite [checkpoint_to_row sample_dumps ?cp2]) MANUAL"
  have h1: "keys_unique (backend ?s0)"
    by (simp add: keys_unique_def sample_checkpointer_def)
  have h2: "checkpoint_start sample_dumps (''2024-01-01T00:00:00'', ''2024-01-01T00:00:00'', ''2024-01-01T00:00:01'')
        ?s0 ''wf'' ''first'' 0 [] None = (?cp1, ?s1)"
    by (simp add: checkpoint_start_def backend_save_def sqlite_save_def Let_def insert_or_replace_def
        sample_checkpointer_def generate_checkpoint_id_wf_0)
  have h3: "checkpoint_start sample_dumps (''2024-01-01T00:00:05'', ''2024-01-01T00:00:05'', ''2024-01-01T00:00:06'')
        ?s1 ''wf'' ''second'' 0 [(''x'', JInt 1)] (Some [(''y'', JInt 2)]) = (?cp2, ?s2)"
    by (simp add: checkpoint_start_def backend_save_def sqlite_save_def Let_def insert_or_replace_def
        sample_checkpointer_def generate_checkpoint_id_wf_0 checkpoint_to_row_def)
  have h4: "payloads_representable sample_dumps sample_loads ?cp2"
    by (simp add: payloads_representable_def json_roundtrips_def sample_codec)
  have h4': "case backend ?s0 of Memory d \<Rightarrow> True | SQLite t \<Rightarrow> payloads_representable sample_dumps sample_loads ?cp2"
    using h4 by (simp add: sample_checkpointer_def)
  from checkpoint_start_twice_overwrites [OF h1 h2 h3 h4']
  have "count_list (stored_ids (backend ?s2)) ''wf_step_0'' = 1
      \<and> backend_load sample_loads (backend ?s2) ''wf_step_0'' = Inr (Some ?cp2)"
    by (simp add: generate_checkpoint_id_wf_0)
  then have c: "count_list (stored_ids (SQLite [checkpoint_to_row sample_dumps ?cp2])) ''wf_step_0'' = 1"
    and l: "backend_load sample_loads (SQLite [checkpoint_to_row sample_dumps ?cp2]) ''wf_step_0'' = Inr (Some ?cp2)"
    by (simp_all add: sample_checkpointer_def)
  show ?thesis
    by (intro conjI) (rule h1 h2 h3 h4 c l)+
qed

text \<open>The claim as stated fails: the second start constructs a new record, whose
  \<open>created_at\<close> is a new clock reading, and the save replaces the stored record with it.\<close>

theorem checkpoint_start_twice_counterexample:
  "created_at (fst (checkpoint_start sample_dumps
        (''2024-01-01T00:00:00'', ''2024-01-01T00:00:00'', ''2024-01-01T00:00:01'')
        (sample_checkpointer (Memory []) MANUAL) ''wf'' ''step'' 0 [] None))
     = ''2024-01-01T00:00:00''
   \<and> backend_load sample_loads
        (backend (snd (checkpoint_start sample_dumps
           (''2024-01-01T00:00:05'', ''2024-01-01T00:00:05'', ''2024-01-01T00:00:06'')
           (snd (checkpoint_start sample_dumps
              (''2024-01-01T00:00:00'', ''2024-01-01T00:00:00'', ''2024-01-01T00:00:01'')
              (sample_checkpointer (Memory []) MANUAL) ''wf'' ''step'' 0 [] None))
           ''wf'' ''step'' 0 [] None)))
        (generate_checkpoint_id ''wf'' 0)
     = Inr (Some \<lparr>cp_id = ''wf_step_0'', workflow_id = ''wf'', step_name = ''step'', step_index = 0,
          status = IN_PROGRESS, input_data = [], output_data = None, error = None,
          created_at = ''2024-01-01T00:00:05'', updated_at = ''2024-01-01T00:00:06'', metadata = []\<rparr>)
   \<and> ''2024-01-01T00:00:05'' \<noteq> ''2024-01-01T00:00:00''"
  by (simp add: checkpoint_start_def backend_save_def memory_save_def Let_def backend_load_def
      memory_load_def sample_checkpointer_def generate_checkpoint_id_wf_0)


subsection \<open>Round trip through a backend\<close>





subsection \<open>The error field and the FAILED status\<close>


text \<open>
  Claim C4, as the code has it. \<open>checkpoint_start\<close> and \<open>checkpoint_failed\<close> always produce a
  record whose \<open>error\<close> is populated exactly when its status is \<open>FAILED\<close>.
  \<open>checkpoint_complete\<close> and \<open>mark_recovered\<close> change the status and leave \<open>error\<close> as it was:
  the record they produce satisfies the invariant exactly when the starting record's
  \<open>error\<close> is absent, so they preserve the invariant for every starting record that
  satisfies it and is not \<open>FAILED\<close>.
\<close>

theorem error_iff_failed_transitions:
  "error_iff_failed (fst (checkpoint_start dumps clock self wid name idx inp md))
   \<and> error_iff_failed (fst (checkpoint_failed dumps now self cp err))
   \<and> (error_iff_failed (fst (checkpoint_complete dumps now self cp out)) \<longleftrightarrow> error cp = None)
   \<and> (error_iff_failed (fst (mark_recovered dumps now self cp)) \<longleftrightarrow> error cp = None)
   \<and> (error_iff_failed cp \<and> status cp \<noteq> FAILED \<longrightarrow>
        error_iff_failed (fst (checkpoint_complete dumps now self cp out))
        \<and> error_iff_failed (fst (mark_recovered dumps now self cp)))"
proof -
  obtain c u s where clock: "clock = (c, u, s)" by (cases clock)
  have "error_iff_failed (fst (checkpoint_start dumps clock self wid name idx inp md))"
    unfolding clock by (simp add: checkpoint_start_fst error_iff_failed_def)
  moreover have "error_iff_failed (fst (checkpoint_failed dumps now self cp err))"
    by (simp add: checkpoint_failed_fst error_iff_failed_def)
  moreover have "error_iff_failed (fst (checkpoint_complete dumps now self cp out)) \<longleftrightarrow> error cp = None"
    by (simp add: checkpoint_complete_fst error_iff_failed_def)
  moreover have "error_iff_failed (fst (mark_recovered dumps now self cp)) \<longleftrightarrow> error cp = None"
    by (simp add: mark_recovered_fst error_iff_failed_def)
  moreover have "error cp = None" if "error_iff_failed cp" "status cp \<noteq> FAILED"
    using that by (simp add: error_iff_failed_def)
  ultimately show ?thesis by simp
qed

theorem error_iff_failed_transitions_witness:
  "error_iff_failed (sample_checkpoint ''wf_step_0'' ''wf'' 0 IN_PROGRESS)
   \<and> status (sample_checkpoint ''wf_step_0'' ''wf'' 0 IN_PROGRESS) \<noteq> FAILED
   \<and> error_iff_failed (fst (checkpoint_complete sample_dumps ''2024-01-01T00:00:09''
        (sample_checkpointer (Memory []) MANUAL) (sample_checkpoint ''wf_step_0'' ''wf'' 0 IN_PROGRESS) []))
   \<and> error_iff_failed (fst (mark_recovered sample_dumps ''2024-01-01T00:00:09''
        (sample_checkpointer (Memory []) MANUAL) (sample_checkpoint ''wf_step_0'' ''wf'' 0 IN_PROGRESS)))
   \<and> error_iff_failed (fst (checkpoint_failed sample_dumps ''2024-01-01T00:00:09''
        (sample_checkpointer (Memory []) MANUAL) (sample_checkpoint ''wf_step_0'' ''wf'' 0 IN_PROGRESS) ''boom''))"
proof -
  let ?cp = "sample_checkpoint ''wf_step_0'' ''wf'' 0 IN_PROGRESS"
  have h1: "error_iff_failed ?cp" and h2: "status ?cp \<noteq> FAILED"
    by (simp_all add: error_iff_failed_def sample_checkpoint_def)
  note t = error_iff_failed_transitions [where dumps = sample_dumps and now = "''2024-01-01T00:00:09''"
      and self = "sample_checkpointer (Memory []) MANUAL" and cp = ?cp and out = "[]" and err = "''boom''"]
  from t h1 h2 show ?thesis by blast
qed

text \<open>The claim as stated fails: a step is started, fails, and is marked recovered for a
  retry; the record then has status \<open>RECOVERED\<close> and still carries the error.\<close>

theorem error_iff_failed_counterexample:
  "fst (mark_recovered sample_dumps ''2024-01-01T00:00:09''
     (snd (checkpoint_failed sample_dumps ''2024-01-01T00:00:05''
        (snd (checkpoint_start sample_dumps
           (''2024-01-01T00:00:00'', ''2024-01-01T00:00:00'', ''2024-01-01T00:00:01'')
           (sample_checkpointer (Memory []) MANUAL) ''wf'' ''step'' 0 [] None))
        (fst (checkpoint_start sample_dumps
           (''2024-01-01T00:00:00'', ''2024-01-01T00:00:00'', ''2024-01-01T00:00:01'')
           (sample_checkpointer (Memory []) MANUAL) ''wf'' ''step'' 0 [] None))
        ''boom''))
     (fst (checkpoint_failed sample_dumps ''2024-01-01T00:00:05''
        (snd (checkpoint_start sample_dumps
           (''2024-01-01T00:00:00'', ''2024-01-01T00:00:00'', ''2024-01-01T00:00:01'')
           (sample_checkpointer (Memory []) MANUAL) ''wf'' ''step'' 0 [] None))
        (fst (checkpoint_start sample_dumps
           (''2024-01-01T00:00:00'', ''2024-01-01T00:00:00'', ''2024-01-01T00:00:01'')
           (sample_checkpointer (Memory []) MANUAL) ''wf'' ''step'' 0 [] None))
        ''boom'')))
    = \<lparr>cp_id = ''wf_step_0'', workflow_id = ''wf'', step_name = ''step'', step_index = 0,
       status = RECOVERED, input_data = [], output_data = None, error = Some ''boom'',
       created_at = ''2024-01-01T00:00:00'', updated_at = ''2024-01-01T00:00:09'', metadata = []\<rparr>
   \<and> \<not> error_iff_failed
       \<lparr>cp_id = ''wf_step_0'', workflow_id = ''wf'', step_name = ''step'', step_index = 0,
        status = RECOVERED, input_data = [], output_data = None, error = Some ''boom'',
        created_at = ''2024-01-01T00:00:00'', updated_at = ''2024-01-01T00:00:09'', metadata = []\<rparr>"
  by (simp add: mark_recovered_fst checkpoint_failed_fst checkpoint_start_fst error_iff_failed_def
      generate_checkpoint_id_wf_0)


subsection \<open>The scoped context\<close>


lemma fold_set_output:
  shows "ctx_output (fold set_output outs ctx) = (if outs = [] then ctx_output ctx else Some (last outs))"
    and "ctx_checkpoint (fold set_output outs ctx) = ctx_checkpoint ctx"
  by (induction outs arbitrary: ctx) (simp_all add: set_output_def)

lemma context_exit_cases:
  assumes "ctx_checkpoint ctx = Some cp"
  shows "context_exit dumps now ctx (Some msg) self
           = (False, ctx\<lparr>ctx_checkpoint := Some (fst (checkpoint_failed dumps now self cp msg))\<rparr>,
              snd (checkpoint_failed dumps now self cp msg))"
    and "ctx_output ctx = Some out \<Longrightarrow> context_exit dumps now ctx None self
           = (False, ctx\<lparr>ctx_checkpoint := Some (fst (checkpoint_complete dumps now self cp out))\<rparr>,
              snd (checkpoint_complete dumps now self cp out))"
    and "ctx_output ctx = None \<Longrightarrow> context_exit dumps now ctx None self
           = (False, ctx\<lparr>ctx_checkpoint := Some (fst (checkpoint_complete dumps now self cp []))\<rparr>,
              snd (checkpoint_complete dumps now self cp []))"
  using assms by (simp_all add: context_exit_def map_prod_def case_prod_unfold)

lemma with_context_unfold:
  assumes "checkpoint_start dumps clock self wid name idx inp md = (cp0, self1)"
  shows "with_context is_async dumps clock now (checkpointer_context wid name idx inp md) (outs, exc) self
     = (case exc of
          Some msg \<Rightarrow>
            (Raised msg,
             (checkpointer_context wid name idx inp md)
               \<lparr>ctx_output := (if outs = [] then None else Some (last outs)),
                ctx_checkpoint := Some (fst (checkpoint_failed dumps now self1 cp0 msg))\<rparr>,
             snd (checkpoint_failed dumps now self1 cp0 msg))
        | None \<Rightarrow>
            (Returned,
             (checkpointer_context wid name idx inp md)
               \<lparr>ctx_output := (if outs = [] then None else Some (last outs)),
                ctx_checkpoint := Some (fst (checkpoint_complete dumps now self1 cp0
                                              (if outs = [] then [] else last outs)))\<rparr>,
             snd (checkpoint_complete dumps now self1 cp0 (if outs = [] then [] else last outs))))"
proof -
  let ?ctx0 = "checkpointer_context wid name idx inp md"
  let ?ctx1 = "?ctx0\<lparr>ctx_checkpoint := Some cp0\<rparr>"
  let ?ctx2 = "fold set_output outs ?ctx1"
  have enter: "context_enter dumps clock ?ctx0 self = (?ctx1, self1)"
    using assms by (simp add: context_enter_def checkpointer_context_def)
  have ctx2: "?ctx2 = ?ctx0\<lparr>ctx_output := (if outs = [] then None else Some (last outs)),
                            ctx_checkpoint := Some cp0\<rparr>" (is "_ = ?ctx2'")
    by (induction outs rule: rev_induct) (simp_all add: set_output_def checkpointer_context_def)
  have cp: "ctx_checkpoint ?ctx2' = Some cp0"
    by simp
  have unfold: "with_context is_async dumps clock now ?ctx0 (outs, exc) self
     = (case context_exit dumps now ?ctx2' exc self1 of
          (suppress, ctx3, self2) \<Rightarrow>
            ((case exc of None \<Rightarrow> Returned | Some msg \<Rightarrow> if suppress then Returned else Raised msg),
             ctx3, self2))"
    by (simp add: with_context_def context_aenter_def context_aexit_def enter ctx2)
  show ?thesis
  proof (cases exc)
    case (Some msg)
    show ?thesis
      unfolding unfold using context_exit_cases(1) [OF cp, of dumps now msg self1] Some by simp
  next
    case None
    show ?thesis
    proof (cases "outs = []")
      case True
      then have "ctx_output ?ctx2' = None" by simp
      note e = context_exit_cases(3) [OF cp this]
      show ?thesis
        unfolding unfold using e [of dumps now self1] None True by simp
    next
      case False
      then have "ctx_output ?ctx2' = Some (last outs)" by simp
      note e = context_exit_cases(2) [OF cp this]
      show ?thesis
        unfolding unfold using e [of dumps now self1] None False by simp
    qed
  qed
qed



text \<open>
  Claim C5. An exit of an entered context makes one finalizing call and returns \<open>False\<close>, so
  it never suppresses an exception: after a normal end with a recorded output it is
  \<open>checkpoint_complete\<close> with that output, after a normal end without one it is
  \<open>checkpoint_complete\<close> with the empty map, after an exception it is \<open>checkpoint_failed\<close>
  with the exception's message. The asynchronous exit is the synchronous one. For the
  whole \<open>with\<close> statement on a fresh context: the checkpointer ends in the state of the one
  finalizing call applied to the started checkpoint, the body's exception is re-raised,
  and the synchronous and asynchronous statements give the same result.
\<close>

theorem context_finalizes_once:
  assumes "ctx_checkpoint ctx = Some cp"
    and "checkpoint_start dumps clock self0 wid name idx inp md = (cp0, self1)"
  shows "context_exit dumps now (ctx\<lparr>ctx_output := Some out\<rparr>) None self
       = (False,
          ctx\<lparr>ctx_output := Some out,
              ctx_checkpoint := Some (fst (checkpoint_complete dumps now self cp out))\<rparr>,
          snd (checkpoint_complete dumps now self cp out))
    \<and> context_exit dumps now (ctx\<lparr>ctx_output := None\<rparr>) None self
       = (False,
          ctx\<lparr>ctx_output := None,
              ctx_checkpoint := Some (fst (checkpoint_complete dumps now self cp []))\<rparr>,
          snd (checkpoint_complete dumps now self cp []))
    \<and> context_exit dumps now ctx (Some msg) self
       = (False,
          ctx\<lparr>ctx_checkpoint := Some (fst (checkpoint_failed dumps now self cp msg))\<rparr>,
          snd (checkpoint_failed dumps now self cp msg))
    \<and> context_aexit dumps now ctx exc self = context_exit dumps now ctx exc self
    \<and> with_context is_async dumps clock now (checkpointer_context wid name idx inp md) (outs, None) self0
       = (Returned,
          (checkpointer_context wid name idx inp md)
            \<lparr>ctx_output := (if outs = [] then None else Some (last outs)),
             ctx_checkpoint :=
               Some (cp0\<lparr>status := COMPLETED,
                         output_data := Some (if outs = [] then [] else last outs),
                         updated_at := now\<rparr>)\<rparr>,
          snd (checkpoint_complete dumps now self1 cp0 (if outs = [] then [] else last outs)))
    \<and> with_context is_async dumps clock now (checkpointer_context wid name idx inp md) (outs, Some msg) self0
       = (Raised msg,
          (checkpointer_context wid name idx inp md)
            \<lparr>ctx_output := (if outs = [] then None else Some (last outs)),
             ctx_checkpoint :=
               Some (cp0\<lparr>status := FAILED, error := Some msg, updated_at := now\<rparr>)\<rparr>,
          snd (checkpoint_failed dumps now self1 cp0 msg))
    \<and> with_context True dumps clock now (checkpointer_context wid name idx inp md) (outs, exc) self0
       = with_context False dumps clock now (checkpointer_context wid name idx inp md) (outs, exc) self0"
proof -
  have a: "ctx_checkpoint (ctx\<lparr>ctx_output := Some out\<rparr>) = Some cp"
    and b: "ctx_checkpoint (ctx\<lparr>ctx_output := None\<rparr>) = Some cp"
    using assms(1) by simp_all
  have e1: "context_exit dumps now (ctx\<lparr>ctx_output := Some out\<rparr>) None self
       = (False,
          ctx\<lparr>ctx_output := Some out,
              ctx_checkpoint := Some (fst (checkpoint_complete dumps now self cp out))\<rparr>,
          snd (checkpoint_complete dumps now self cp out))"
    using context_exit_cases(2) [OF a, of out dumps now self] by simp
  have e2: "context_exit dumps now (ctx\<lparr>ctx_output := None\<rparr>) None self
       = (False,
          ctx\<lparr>ctx_output := None,
              ctx_checkpoint := Some (fst (checkpoint_complete dumps now self cp []))\<rparr>,
          snd (checkpoint_complete dumps now self cp []))"
    using context_exit_cases(3) [OF b, of dumps now self] by simp
  note e3 = context_exit_cases(1) [OF assms(1), of dumps now msg self]
  have e4: "context_aexit dumps now ctx exc self = context_exit dumps now ctx exc self"
    by (simp add: context_aexit_def)
  note w = with_context_unfold [OF assms(2)]
  have w1: "with_context is_async dumps clock now (checkpointer_context wid name idx inp md) (outs, None) self0
       = (Returned,
          (checkpointer_context wid name idx inp md)
            \<lparr>ctx_output := (if outs = [] then None else Some (last outs)),
             ctx_checkpoint :=
               Some (cp0\<lparr>status := COMPLETED,
                         output_data := Some (if outs = [] then [] else last outs),
                         updated_at := now\<rparr>)\<rparr>,
          snd (checkpoint_complete dumps now self1 cp0 (if outs = [] then [] else last outs)))"
    by (simp add: w checkpoint_complete_fst)
  have w2: "with_context is_async dumps clock now (checkpointer_context wid name idx inp md) (outs, Some msg) self0
       = (Raised msg,
          (checkpointer_context wid name idx inp md)
            \<lparr>ctx_output := (if outs = [] then None else Some (last outs)),
             ctx_checkpoint :=
               Some (cp0\<lparr>status := FAILED, error := Some msg, updated_at := now\<rparr>)\<rparr>,
          snd (checkpoint_failed dumps now self1 cp0 msg))"
    by (simp add: w checkpoint_failed_fst)
  have w3: "with_context True dumps clock now (checkpointer_context wid name idx inp md) (outs, exc) self0
       = with_context False dumps clock now (checkpointer_context wid name idx inp md) (outs, exc) self0"
    by (simp add: w)
  show ?thesis
    by (intro conjI) (rule e1 e2 e3 e4 w1 w2 w3)+
qed

theorem context_finalizes_once_witness:
  "ctx_checkpoint ((checkpointer_context ''wf'' ''step'' 0 [] None)
        \<lparr>ctx_checkpoint := Some (sample_checkpoint ''wf_step_0'' ''wf'' 0 IN_PROGRESS)\<rparr>)
     = Some (sample_checkpoint ''wf_step_0'' ''wf'' 0 IN_PROGRESS)
   \<and> checkpoint_start sample_dumps (''2024-01-01T00:00:00'', ''2024-01-01T00:00:00'', ''2024-01-01T00:00:01'')
        (sample_checkpointer (Memory []) MANUAL) ''wf'' ''step'' 0 [] None
     = (\<lparr>cp_id = ''wf_step_0'', workflow_id = ''wf'', step_name = ''step'', step_index = 0,
         status = IN_PROGRESS, input_data = [], output_data = None, error = None,
         created_at = ''2024-01-01T00:00:00'', updated_at = ''2024-01-01T00:00:01'', metadata = []\<rparr>,
        sample_checkpointer (Memory [(''wf_step_0'',
          \<lparr>cp_id = ''wf_step_0'', workflow_id = ''wf'', step_name = ''step'', step_index = 0,
           status = IN_PROGRESS, input_data = [], output_data = None, error = None,
           created_at = ''2024-01-01T00:00:00'', updated_at = ''2024-01-01T00:00:01'', metadata = []\<rparr>)]) MANUAL)
   \<and> with_context False sample_dumps
        (''2024-01-01T00:00:00'', ''2024-01-01T00:00:00'', ''2024-01-01T00:00:01'') ''2024-01-01T00:00:09''
        (checkpointer_context ''wf'' ''step'' 0 [] None) ([[(''y'', JInt 2)]], None)
        (sample_checkpointer (Memory []) MANUAL)
     = (Returned,
        (checkpointer_context ''wf'' ''step'' 0 [] None)
          \<lparr>ctx_output := Some [(''y'', JInt 2)],
           ctx_checkpoint := Some
             \<lparr>cp_id = ''wf_step_0'', workflow_id = ''wf'', step_name = ''step'', step_index = 0,
              status = COMPLETED, input_data = [], output_data = Some [(''y'', JInt 2)], error = None,
              created_at = ''2024-01-01T00:00:00'', updated_at = ''2024-01-01T00:00:09'', metadata = []\<rparr>\<rparr>,
        sample_checkpointer (Memory [(''wf_step_0'',
          \<lparr>cp_id = ''wf_step_0'', workflow_id = ''wf'', step_name = ''step'', step_index = 0,
           status = COMPLETED, input_data = [], output_data = Some [(''y'', JInt 2)], error = None,
           created_at = ''2024-01-01T00:00:00'', updated_at = ''2024-01-01T00:00:09'', metadata = []\<rparr>)]) MANUAL)
   \<and> with_context True sample_dumps
        (''2024-01-01T00:00:00'', ''2024-01-01T00:00:00'', ''2024-01-01T00:00:01'') ''2024-01-01T00:00:09''
        (checkpointer_context ''wf'' ''step'' 0 [] None) ([], Some ''Test error'')
        (sample_checkpointer (Memory []) MANUAL)
     = (Raised ''Test error'',
        (checkpointer_context ''wf'' ''step'' 0 [] None)
          \<lparr>ctx_output := None,
           ctx_checkpoint := Some
             \<lparr>cp_id = ''wf_step_0'', workflow_id = ''wf'', step_name = ''step'', step_index = 0,
              status = FAILED, input_data = [], output_data = None, error = Some ''Test error'',
              created_at = ''2024-01-01T00:00:00'', updated_at = ''2024-01-01T00:00:09'', metadata = []\<rparr>\<rparr>,
        sample_checkpointer (Memory [(''wf_step_0'',
          \<lparr>cp_id = ''wf_step_0'', workflow_id = ''wf'', step_name = ''step'', step_index = 0,
           status = FAILED, input_data = [], output_data = None, error = Some ''Test error'',
           created_at = ''2024-01-01T00:00:00'', updated_at = ''2024-01-01T00:00:09'', metadata = []\<rparr>)]) MANUAL)"
proof -
  let ?cp0 = "\<lparr>cp_id = ''wf_step_0'', workflow_id = ''wf'', step_name = ''step'', step_index = 0,
         status = IN_PROGRESS, input_data = [], output_data = None, error = None,
         created_at = ''2024-01-01T00:00:00'', updated_at = ''2024-01-01T00:00:01'', metadata = []\<rparr>"
  let ?s0 = "sample_checkpointer (Memory []) MANUAL"
  let ?s1 = "sample_checkpointer (Memory [(''wf_step_0'', ?cp0)]) MANUAL"
  let ?clock = "(''2024-01-01T00:00:00'', ''2024-01-01T00:00:00'', ''2024-01-01T00:00:01'')"
  have h1: "ctx_checkpoint ((checkpointer_context ''wf'' ''step'' 0 [] None)
        \<lparr>ctx_checkpoint := Some (sample_checkpoint ''wf_step_0'' ''wf'' 0 IN_PROGRESS)\<rparr>)
     = Some (sample_checkpoint ''wf_step_0'' ''wf'' 0 IN_PROGRESS)"
    by simp
  have h2: "checkpoint_start sample_dumps ?clock ?s0 ''wf'' ''step'' 0 [] None = (?cp0, ?s1)"
    by (simp add: checkpoint_start_def backend_save_def memory_save_def Let_def
        sample_checkpointer_def generate_checkpoint_id_wf_0)
  note t1 = context_finalizes_once [OF h1 h2, where now = "''2024-01-01T00:00:09''"
      and is_async = False and outs = "[[(''y'', JInt 2)]]" and out = "[]" and self = ?s0
      and exc = None and msg = "''Test error''"]
  note t2 = context_finalizes_once [OF h1 h2, where now = "''2024-01-01T00:00:09''"
      and is_async = True and outs = "[]" and out = "[]" and self = ?s0
      and exc = None and msg = "''Test error''"]
  from t1 have w1: "with_context False sample_dumps ?clock ''2024-01-01T00:00:09''
        (checkpointer_context ''wf'' ''step'' 0 [] None) ([[(''y'', JInt 2)]], None) ?s0
     = (Returned,
        (checkpointer_context ''wf'' ''step'' 0 [] None)
          \<lparr>ctx_output := Some [(''y'', JInt 2)],
           ctx_checkpoint := Some (?cp0\<lparr>status := COMPLETED, output_data := Some [(''y'', JInt 2)],
                                       updated_at := ''2024-01-01T00:00:09''\<rparr>)\<rparr>,
        snd (checkpoint_complete sample_dumps ''2024-01-01T00:00:09'' ?s1 ?cp0 [(''y'', JInt 2)]))"
    by simp
  from t2 have w2: "with_context True sample_dumps ?clock ''2024-01-01T00:00:09''
        (checkpointer_context ''wf'' ''step'' 0 [] None) ([], Some ''Test error'') ?s0
     = (Raised ''Test error'',
        (checkpointer_context ''wf'' ''step'' 0 [] None)
          \<lparr>ctx_output := None,
           ctx_checkpoint := Some (?cp0\<lparr>status := FAILED, error := Some ''Test error'',
                                       updated_at := ''2024-01-01T00:00:09''\<rparr>)\<rparr>,
        snd (checkpoint_failed sample_dumps ''2024-01-01T00:00:09'' ?s1 ?cp0 ''Test error''))"
    by simp
  have c: "snd (checkpoint_complete sample_dumps ''2024-01-01T00:00:09'' ?s1 ?cp0 [(''y'', JInt 2)])
      = sample_checkpointer (Memory [(''wf_step_0'',
          ?cp0\<lparr>status := COMPLETED, output_data := Some [(''y'', JInt 2)],
                updated_at := ''2024-01-01T00:00:09''\<rparr>)]) MANUAL"
    by (simp add: checkpoint_complete_def backend_save_def memory_save_def Let_def sample_checkpointer_def)
  have f: "snd (checkpoint_failed sample_dumps ''2024-01-01T00:00:09'' ?s1 ?cp0 ''Test error'')
      = sample_checkpointer (Memory [(''wf_step_0'',
          ?cp0\<lparr>status := FAILED, error := Some ''Test error'',
                updated_at := ''2024-01-01T00:00:09''\<rparr>)]) MANUAL"
    by (simp add: checkpoint_failed_def backend_save_def memory_save_def Let_def sample_checkpointer_def)
  show ?thesis
    using h1 h2 w1 w2 by (simp add: c f)
qed


subsection \<open>Incomplete workflows\<close>


lemma fold_insert_if:
  "fold (\<lambda>x s. if P x then insert (f x) s else s) xs A = A \<union> {f x |x. x \<in> set xs \<and> P x}"
  by (induction xs arbitrary: A) auto

lemma memory_get_incomplete_workflows_eq:
  "memory_get_incomplete_workflows d
     = {wid. \<exists>cp\<in>snd ` set d. workflow_id cp = wid \<and> (status cp = PENDING \<or> status cp = IN_PROGRESS)}"
  unfolding memory_get_incomplete_workflows_def fold_insert_if by auto

lemma sqlite_get_incomplete_workflows_eq:
  "sqlite_get_incomplete_workflows t
     = {wid. \<exists>r\<in>set t. col_workflow_id r = wid
          \<and> (CheckpointStatus_of (col_status r) = Inr PENDING
             \<or> CheckpointStatus_of (col_status r) = Inr IN_PROGRESS)}"
  unfolding sqlite_get_incomplete_workflows_def CheckpointStatus_of_Inr by auto

text \<open>
  Claim C6. In every state of either backend, \<open>get_incomplete_workflows\<close> returns exactly the
  workflow ids that have at least one stored checkpoint whose status is \<open>PENDING\<close> or
  \<open>IN_PROGRESS\<close>; a workflow all of whose checkpoints are \<open>COMPLETED\<close> or \<open>FAILED\<close> is not in
  the result. (For the durable backend, a row's status is what its status column decodes
  to.)
\<close>

theorem get_incomplete_workflows_exact:
  "get_incomplete_workflows (self\<lparr>backend := Memory d\<rparr>)
     = {wid. \<exists>cp\<in>snd ` set d. workflow_id cp = wid \<and> (status cp = PENDING \<or> status cp = IN_PROGRESS)}
   \<and> ((\<forall>cp\<in>snd ` set d. workflow_id cp = wid \<longrightarrow> status cp = COMPLETED \<or> status cp = FAILED)
        \<longrightarrow> wid \<notin> get_incomplete_workflows (self\<lparr>backend := Memory d\<rparr>))
   \<and> get_incomplete_workflows (self\<lparr>backend := SQLite t\<rparr>)
     = {wid. \<exists>r\<in>set t. col_workflow_id r = wid
          \<and> (CheckpointStatus_of (col_status r) = Inr PENDING
             \<or> CheckpointStatus_of (col_status r) = Inr IN_PROGRESS)}
   \<and> ((\<forall>r\<in>set t. col_workflow_id r = wid \<longrightarrow>
          CheckpointStatus_of (col_status r) = Inr COMPLETED
          \<or> CheckpointStatus_of (col_status r) = Inr FAILED)
        \<longrightarrow> wid \<notin> get_incomplete_workflows (self\<lparr>backend := SQLite t\<rparr>))"
proof -
  have m: "get_incomplete_workflows (self\<lparr>backend := Memory d\<rparr>)
     = {wid. \<exists>cp\<in>snd ` set d. workflow_id cp = wid \<and> (status cp = PENDING \<or> status cp = IN_PROGRESS)}"
    by (simp add: get_incomplete_workflows_def backend_get_incomplete_workflows_def
        memory_get_incomplete_workflows_eq)
  have s: "get_incomplete_workflows (self\<lparr>backend := SQLite t\<rparr>)
     = {wid. \<exists>r\<in>set t. col_workflow_id r = wid
          \<and> (CheckpointStatus_of (col_status r) = Inr PENDING
             \<or> CheckpointStatus_of (col_status r) = Inr IN_PROGRESS)}"
    by (simp add: get_incomplete_workflows_def backend_get_incomplete_workflows_def
        sqlite_get_incomplete_workflows_eq)
  have m': "wid \<notin> get_incomplete_workflows (self\<lparr>backend := Memory d\<rparr>)"
    if "\<forall>cp\<in>snd ` set d. workflow_id cp = wid \<longrightarrow> status cp = COMPLETED \<or> status cp = FAILED"
    using that unfolding m by fastforce
  have s': "wid \<notin> get_incomplete_workflows (self\<lparr>backend := SQLite t\<rparr>)"
    if "\<forall>r\<in>set t. col_workflow_id r = wid \<longrightarrow>
          CheckpointStatus_of (col_status r) = Inr COMPLETED
          \<or> CheckpointStatus_of (col_status r) = Inr FAILED"
    using that unfolding s by fastforce
  from m s m' s' show ?thesis by blast
qed

theorem get_incomplete_workflows_exact_witness:
  "get_incomplete_workflows (sample_checkpointer
      (Memory [(''a_step_0'', sample_checkpoint ''a_step_0'' ''a'' 0 COMPLETED),
               (''a_step_1'', sample_checkpoint ''a_step_1'' ''a'' 1 IN_PROGRESS),
               (''b_step_0'', sample_checkpoint ''b_step_0'' ''b'' 0 COMPLETED),
               (''c_step_0'', sample_checkpoint ''c_step_0'' ''c'' 0 FAILED),
               (''e_step_0'', sample_checkpoint ''e_step_0'' ''e'' 0 PENDING)]) MANUAL)
     = {''a'', ''e''}
   \<and> ''c'' \<notin> get_incomplete_workflows (sample_checkpointer
      (Memory [(''a_step_0'', sample_checkpoint ''a_step_0'' ''a'' 0 COMPLETED),
               (''a_step_1'', sample_checkpoint ''a_step_1'' ''a'' 1 IN_PROGRESS),
               (''b_step_0'', sample_checkpoint ''b_step_0'' ''b'' 0 COMPLETED),
               (''c_step_0'', sample_checkpoint ''c_step_0'' ''c'' 0 FAILED),
               (''e_step_0'', sample_checkpoint ''e_step_0'' ''e'' 0 PENDING)]) MANUAL)
   \<and> get_incomplete_workflows (sample_checkpointer
      (SQLite (snd (sqlite_save sample_dumps ''2024-01-01T00:00:07''
                (sample_checkpoint ''c_step_0'' ''c'' 0 FAILED)
           (snd (sqlite_save sample_dumps ''2024-01-01T00:00:06''
                (sample_checkpoint ''a_step_1'' ''a'' 1 IN_PROGRESS) []))))) MANUAL)
     = {''a''}"
proof -
  let ?d = "[(''a_step_0'', sample_checkpoint ''a_step_0'' ''a'' 0 COMPLETED),
               (''a_step_1'', sample_checkpoint ''a_step_1'' ''a'' 1 IN_PROGRESS),
               (''b_step_0'', sample_checkpoint ''b_step_0'' ''b'' 0 COMPLETED),
               (''c_step_0'', sample_checkpoint ''c_step_0'' ''c'' 0 FAILED),
               (''e_step_0'', sample_checkpoint ''e_step_0'' ''e'' 0 PENDING)]"
  let ?t = "snd (sqlite_save sample_dumps ''2024-01-01T00:00:07''
                (sample_checkpoint ''c_step_0'' ''c'' 0 FAILED)
           (snd (sqlite_save sample_dumps ''2024-01-01T00:00:06''
                (sample_checkpoint ''a_step_1'' ''a'' 1 IN_PROGRESS) [])))"
  note t = get_incomplete_workflows_exact
    [where self = "sample_checkpointer (Memory []) MANUAL" and d = ?d and wid = "''c''" and t = ?t]
  have m: "get_incomplete_workflows (sample_checkpointer (Memory ?d) MANUAL) = {''a'', ''e''}"
    by (simp add: get_incomplete_workflows_def backend_get_incomplete_workflows_def
        memory_get_incomplete_workflows_def sample_checkpointer_def sample_checkpoint_def insert_commute)
  have hyp: "\<forall>cp\<in>snd ` set ?d. workflow_id cp = ''c'' \<longrightarrow> status cp = COMPLETED \<or> status cp = FAILED"
    by (simp add: sample_checkpoint_def)
  from t have "(\<forall>cp\<in>snd ` set ?d. workflow_id cp = ''c'' \<longrightarrow> status cp = COMPLETED \<or> status cp = FAILED)
      \<longrightarrow> ''c'' \<notin> get_incomplete_workflows ((sample_checkpointer (Memory []) MANUAL)\<lparr>backend := Memory ?d\<rparr>)"
    by (elim conjE)
  with hyp have "''c'' \<notin> get_incomplete_workflows ((sample_checkpointer (Memory []) MANUAL)\<lparr>backend := Memory ?d\<rparr>)"
    by (rule rev_mp)
  then have c: "''c'' \<notin> get_incomplete_workflows (sample_checkpointer (Memory ?d) MANUAL)"
    by (simp add: sample_checkpointer_def)
  have s: "get_incomplete_workflows (sample_checkpointer (SQLite ?t) MANUAL) = {''a''}"
    by (simp add: get_incomplete_workflows_def backend_get_incomplete_workflows_def
        sqlite_get_incomplete_workflows_def sqlite_save_def checkpoint_to_row_def insert_or_replace_def
        sample_checkpointer_def sample_checkpoint_def)
  show ?thesis
    by (intro conjI) (rule m c s)+
qed


subsection \<open>Listing a workflow's checkpoints\<close>


lemma sort_key_head_least:
  assumes "sort_key f xs = x # rest" and "y \<in> set xs"
  shows "x \<in> set xs" and "f x \<le> f y"
proof -
  have s: "set (sort_key f xs) = set xs" by simp
  with assms(1) show "x \<in> set xs" by (metis list.set_intros(1))
  have "sorted (map f (sort_key f xs))" by (rule sorted_sort_key)
  with assms(1) have "\<forall>z\<in>set rest. f x \<le> f z" by simp
  moreover from s assms have "y = x \<or> y \<in> set rest" by (metis set_ConsD)
  ultimately show "f x \<le> f y" by auto
qed

lemma memory_list_exact:
  "mset (memory_list_workflow_checkpoints d wid)
     = filter_mset (\<lambda>cp. workflow_id cp = wid) (mset (map snd d))"
  by (simp add: memory_list_workflow_checkpoints_def)

lemma memory_list_set:
  "set (memory_list_workflow_checkpoints d wid) = {cp \<in> snd ` set d. workflow_id cp = wid}"
  by (auto simp: memory_list_workflow_checkpoints_def)

lemma memory_list_sorted:
  "sorted (map step_index (memory_list_workflow_checkpoints d wid))"
  by (simp add: memory_list_workflow_checkpoints_def)

lemma memory_get_last_None:
  "memory_get_last_checkpoint d wid = None \<longleftrightarrow> (\<forall>cp\<in>snd ` set d. workflow_id cp \<noteq> wid)"
proof -
  have "memory_get_last_checkpoint d wid = None \<longleftrightarrow> set (memory_list_workflow_checkpoints d wid) = {}"
    by (simp add: memory_get_last_checkpoint_def Let_def)
  then show ?thesis
    unfolding memory_list_set by blast
qed

lemma memory_get_last_Some:
  assumes "memory_get_last_checkpoint d wid = Some c"
  shows "c \<in> snd ` set d" and "workflow_id c = wid"
    and "\<forall>cp\<in>snd ` set d. workflow_id cp = wid \<longrightarrow> step_index cp \<le> step_index c"
proof -
  let ?l = "memory_list_workflow_checkpoints d wid"
  from assms have ne: "?l \<noteq> []" and c: "c = last ?l"
    by (auto simp: memory_get_last_checkpoint_def Let_def split: if_splits)
  then have "c \<in> set ?l" by simp
  then show "c \<in> snd ` set d" and "workflow_id c = wid"
    unfolding memory_list_set by simp_all
  show "\<forall>cp\<in>snd ` set d. workflow_id cp = wid \<longrightarrow> step_index cp \<le> step_index c"
  proof (intro ballI impI)
    fix cp assume "cp \<in> snd ` set d" and "workflow_id cp = wid"
    then have "cp \<in> set ?l" unfolding memory_list_set by simp
    with memory_list_sorted [of d wid] show "step_index cp \<le> step_index c"
      unfolding c by (rule sorted_last_greatest)
  qed
qed

lemma memory_list_order_independent:
  assumes "mset d' = mset d"
  shows "map step_index (memory_list_workflow_checkpoints d' wid)
       = map step_index (memory_list_workflow_checkpoints d wid)"
proof -
  let ?xs = "map step_index (memory_list_workflow_checkpoints d' wid)"
  let ?ys = "map step_index (memory_list_workflow_checkpoints d wid)"
  have "mset (map snd d') = mset (map snd d)"
    using assms by (metis mset_map)
  then have "mset (memory_list_workflow_checkpoints d' wid) = mset (memory_list_workflow_checkpoints d wid)"
    by (simp add: memory_list_exact)
  then have "mset ?ys = mset ?xs"
    by (metis mset_map)
  moreover have "sorted ?ys" by (rule memory_list_sorted)
  ultimately have "sort ?xs = ?ys" by (rule properties_for_sort)
  moreover have "sort ?xs = ?xs"
    using memory_list_sorted [of d' wid] by (rule sorted_sort_id)
  ultimately show ?thesis by simp
qed

lemma sqlite_list_total:
  assumes "\<forall>r\<in>set t. col_workflow_id r = wid \<longrightarrow> (\<exists>cp. row_to_checkpoint loads r = Inr cp)"
  shows "\<exists>cps. sqlite_list_workflow_checkpoints loads t wid = Inr cps"
  unfolding sqlite_list_workflow_checkpoints_def
  by (rule rows_to_checkpoints_total) (use assms in simp)

lemma sqlite_list_exact:
  assumes "sqlite_list_workflow_checkpoints loads t wid = Inr cps"
  shows "sorted (map step_index cps)"
    and "mset (map Inr cps)
           = image_mset (row_to_checkpoint loads) (filter_mset (\<lambda>r. col_workflow_id r = wid) (mset t))"
proof -
  let ?rows = "sort_key col_step_index (filter (\<lambda>r. col_workflow_id r = wid) t)"
  from assms have r: "rows_to_checkpoints loads ?rows = Inr cps"
    by (simp add: sqlite_list_workflow_checkpoints_def)
  then have "map step_index cps = map col_step_index ?rows"
    by (rule rows_to_checkpoints_step_index)
  then show "sorted (map step_index cps)" by simp
  from r have "map Inr cps = map (row_to_checkpoint loads) ?rows"
    by (rule rows_to_checkpoints_Inr)
  then have "mset (map Inr cps) = mset (map (row_to_checkpoint loads) ?rows)" by simp
  also have "\<dots> = image_mset (row_to_checkpoint loads) (mset ?rows)" by simp
  also have "mset ?rows = filter_mset (\<lambda>r. col_workflow_id r = wid) (mset t)" by simp
  finally show "mset (map Inr cps)
      = image_mset (row_to_checkpoint loads) (filter_mset (\<lambda>r. col_workflow_id r = wid) (mset t))" .
qed

lemma sqlite_get_last_None:
  "sqlite_get_last_checkpoint loads t wid = Inr None \<longleftrightarrow> (\<forall>r\<in>set t. col_workflow_id r \<noteq> wid)"
proof -
  let ?rows = "sort_key (\<lambda>r. - col_step_index r) (filter (\<lambda>r. col_workflow_id r = wid) t)"
  have "sqlite_get_last_checkpoint loads t wid = Inr None \<longleftrightarrow> ?rows = []"
    by (cases ?rows; cases "row_to_checkpoint loads (hd ?rows)")
       (simp_all add: sqlite_get_last_checkpoint_def)
  also have "\<dots> \<longleftrightarrow> set ?rows = {}" by (simp only: set_empty)
  also have "\<dots> \<longleftrightarrow> (\<forall>r\<in>set t. col_workflow_id r \<noteq> wid)"
    unfolding set_sort by auto
  finally show ?thesis .
qed

lemma sqlite_get_last_Some:
  assumes "sqlite_get_last_checkpoint loads t wid = Inr (Some c)"
  shows "\<exists>r\<in>set t. col_workflow_id r = wid \<and> row_to_checkpoint loads r = Inr c
           \<and> (\<forall>r'\<in>set t. col_workflow_id r' = wid \<longrightarrow> col_step_index r' \<le> step_index c)"
proof -
  let ?m = "filter (\<lambda>r. col_workflow_id r = wid) t"
  let ?rows = "sort_key (\<lambda>r. - col_step_index r) ?m"
  from assms obtain r rest where rows: "?rows = r # rest"
    by (cases ?rows) (simp_all add: sqlite_get_last_checkpoint_def)
  with assms have conv: "row_to_checkpoint loads r = Inr c"
    by (cases "row_to_checkpoint loads r") (simp_all add: sqlite_get_last_checkpoint_def)
  have "r \<in> set ?m"
    using rows by (metis list.set_intros(1) set_sort)
  then have r: "r \<in> set t" "col_workflow_id r = wid" by simp_all
  have "\<forall>r'\<in>set t. col_workflow_id r' = wid \<longrightarrow> col_step_index r' \<le> step_index c"
  proof (intro ballI impI)
    fix r' assume "r' \<in> set t" and "col_workflow_id r' = wid"
    then have "r' \<in> set ?m" by simp
    with rows have "- col_step_index r \<le> - col_step_index r'"
      by (rule sort_key_head_least(2))
    with conv show "col_step_index r' \<le> step_index c"
      by (simp add: row_to_checkpoint_columns(4))
  qed
  with r conv show ?thesis by blast
qed



lemma sqlite_get_last_total:
  assumes "\<forall>r\<in>set t. col_workflow_id r = wid \<longrightarrow> (\<exists>cp. row_to_checkpoint loads r = Inr cp)"
  shows "\<exists>x. sqlite_get_last_checkpoint loads t wid = Inr x"
proof (cases "sort_key (\<lambda>r. - col_step_index r) (filter (\<lambda>r. col_workflow_id r = wid) t)")
  case Nil
  then show ?thesis by (simp add: sqlite_get_last_checkpoint_def)
next
  case (Cons r rest)
  then have "r \<in> set (filter (\<lambda>r. col_workflow_id r = wid) t)"
    by (metis list.set_intros(1) set_sort)
  with assms obtain cp where "row_to_checkpoint loads r = Inr cp" by auto
  with Cons show ?thesis by (simp add: sqlite_get_last_checkpoint_def)
qed

text \<open>
  Claim C7. In every state of either backend and for every workflow id, the listing holds
  exactly the stored checkpoints of that workflow (as a multiset) and is sorted ascending
  by step index, whatever the order in which the records were saved (stores that hold the
  same entries in another order list the same sequence of step indices); the last checkpoint
  is absent exactly when the workflow has no stored checkpoint, and otherwise is a stored
  checkpoint of the workflow whose step index is the maximum. For the durable backend the
  listed checkpoints are the stored rows as \<open>_row_to_checkpoint\<close> converts them, and the
  queries return whenever the workflow's rows convert.
\<close>

theorem list_workflow_checkpoints_sorted_exact:
  "mset (memory_list_workflow_checkpoints d wid)
      = filter_mset (\<lambda>cp. workflow_id cp = wid) (mset (map snd d))
   \<and> sorted (map step_index (memory_list_workflow_checkpoints d wid))
   \<and> (\<forall>d'. mset d' = mset d \<longrightarrow>
         map step_index (memory_list_workflow_checkpoints d' wid)
           = map step_index (memory_list_workflow_checkpoints d wid))
   \<and> (memory_get_last_checkpoint d wid = None \<longleftrightarrow> (\<forall>cp\<in>snd ` set d. workflow_id cp \<noteq> wid))
   \<and> (\<forall>c. memory_get_last_checkpoint d wid = Some c \<longrightarrow>
         c \<in> snd ` set d \<and> workflow_id c = wid
         \<and> (\<forall>cp\<in>snd ` set d. workflow_id cp = wid \<longrightarrow> step_index cp \<le> step_index c))
   \<and> ((\<forall>r\<in>set t. col_workflow_id r = wid \<longrightarrow> (\<exists>cp. row_to_checkpoint loads r = Inr cp)) \<longrightarrow>
         (\<exists>cps. sqlite_list_workflow_checkpoints loads t wid = Inr cps)
         \<and> (\<exists>x. sqlite_get_last_checkpoint loads t wid = Inr x))
   \<and> (\<forall>cps. sqlite_list_workflow_checkpoints loads t wid = Inr cps \<longrightarrow>
         sorted (map step_index cps)
         \<and> mset (map Inr cps)
             = image_mset (row_to_checkpoint loads)
                 (filter_mset (\<lambda>r. col_workflow_id r = wid) (mset t)))
   \<and> (sqlite_get_last_checkpoint loads t wid = Inr None \<longleftrightarrow> (\<forall>r\<in>set t. col_workflow_id r \<noteq> wid))
   \<and> (\<forall>c. sqlite_get_last_checkpoint loads t wid = Inr (Some c) \<longrightarrow>
         (\<exists>r\<in>set t. col_workflow_id r = wid \<and> row_to_checkpoint loads r = Inr c
            \<and> (\<forall>r'\<in>set t. col_workflow_id r' = wid \<longrightarrow> col_step_index r' \<le> step_index c)))"
proof (intro conjI allI impI)
  show "mset (memory_list_workflow_checkpoints d wid)
      = filter_mset (\<lambda>cp. workflow_id cp = wid) (mset (map snd d))"
    by (rule memory_list_exact)
  show "sorted (map step_index (memory_list_workflow_checkpoints d wid))"
    by (rule memory_list_sorted)
  show "memory_get_last_checkpoint d wid = None \<longleftrightarrow> (\<forall>cp\<in>snd ` set d. workflow_id cp \<noteq> wid)"
    by (rule memory_get_last_None)
  show "sqlite_get_last_checkpoint loads t wid = Inr None \<longleftrightarrow> (\<forall>r\<in>set t. col_workflow_id r \<noteq> wid)"
    by (rule sqlite_get_last_None)
next
  fix d' :: MemoryCheckpointBackend assume "mset d' = mset d"
  then show "map step_index (memory_list_workflow_checkpoints d' wid)
           = map step_index (memory_list_workflow_checkpoints d wid)"
    by (rule memory_list_order_independent)
next
  fix c assume "memory_get_last_checkpoint d wid = Some c"
  note l = memory_get_last_Some [OF this]
  show "c \<in> snd ` set d" by (rule l(1))
  show "workflow_id c = wid" by (rule l(2))
  show "\<forall>cp\<in>snd ` set d. workflow_id cp = wid \<longrightarrow> step_index cp \<le> step_index c" by (rule l(3))
next
  assume a: "\<forall>r\<in>set t. col_workflow_id r = wid \<longrightarrow> (\<exists>cp. row_to_checkpoint loads r = Inr cp)"
  show "\<exists>cps. sqlite_list_workflow_checkpoints loads t wid = Inr cps"
    using a by (rule sqlite_list_total)
  show "\<exists>x. sqlite_get_last_checkpoint loads t wid = Inr x"
    using a by (rule sqlite_get_last_total)
next
  fix cps assume "sqlite_list_workflow_checkpoints loads t wid = Inr cps"
  note l = sqlite_list_exact [OF this]
  show "sorted (map step_index cps)" by (rule l(1))
  show "mset (map Inr cps)
      = image_mset (row_to_checkpoint loads) (filter_mset (\<lambda>r. col_workflow_id r = wid) (mset t))"
    by (rule l(2))
next
  fix c assume "sqlite_get_last_checkpoint loads t wid = Inr (Some c)"
  then show "\<exists>r\<in>set t. col_workflow_id r = wid \<and> row_to_checkpoint loads r = Inr c
            \<and> (\<forall>r'\<in>set t. col_workflow_id r' = wid \<longrightarrow> col_step_index r' \<le> step_index c)"
    by (rule sqlite_get_last_Some)
qed

theorem list_workflow_checkpoints_sorted_exact_witness:
  "memory_list_workflow_checkpoints
      [(''wf_step_2'', sample_checkpoint ''wf_step_2'' ''wf'' 2 IN_PROGRESS),
       (''other_step_7'', sample_checkpoint ''other_step_7'' ''other'' 7 COMPLETED),
       (''wf_step_0'', sample_checkpoint ''wf_step_0'' ''wf'' 0 COMPLETED),
       (''wf_step_1'', sample_checkpoint ''wf_step_1'' ''wf'' 1 FAILED)] ''wf''
     = [sample_checkpoint ''wf_step_0'' ''wf'' 0 COMPLETED,
        sample_checkpoint ''wf_step_1'' ''wf'' 1 FAILED,
        sample_checkpoint ''wf_step_2'' ''wf'' 2 IN_PROGRESS]
   \<and> memory_get_last_checkpoint
      [(''wf_step_2'', sample_checkpoint ''wf_step_2'' ''wf'' 2 IN_PROGRESS),
       (''other_step_7'', sample_checkpoint ''other_step_7'' ''other'' 7 COMPLETED),
       (''wf_step_0'', sample_checkpoint ''wf_step_0'' ''wf'' 0 COMPLETED),
       (''wf_step_1'', sample_checkpoint ''wf_step_1'' ''wf'' 1 FAILED)] ''wf''
     = Some (sample_checkpoint ''wf_step_2'' ''wf'' 2 IN_PROGRESS)
   \<and> sqlite_list_workflow_checkpoints sample_loads
        (snd (sqlite_save sample_dumps ''2024-01-01T00:00:07''
                (sample_checkpoint ''wf_step_0'' ''wf'' 0 COMPLETED)
           (snd (sqlite_save sample_dumps ''2024-01-01T00:00:06''
                (sample_checkpoint ''wf_step_1'' ''wf'' 1 FAILED) [])))) ''wf''
     = Inr [(sample_checkpoint ''wf_step_0'' ''wf'' 0 COMPLETED)\<lparr>updated_at := ''2024-01-01T00:00:07''\<rparr>,
            (sample_checkpoint ''wf_step_1'' ''wf'' 1 FAILED)\<lparr>updated_at := ''2024-01-01T00:00:06''\<rparr>]
   \<and> sqlite_get_last_checkpoint sample_loads
        (snd (sqlite_save sample_dumps ''2024-01-01T00:00:07''
                (sample_checkpoint ''wf_step_0'' ''wf'' 0 COMPLETED)
           (snd (sqlite_save sample_dumps ''2024-01-01T00:00:06''
                (sample_checkpoint ''wf_step_1'' ''wf'' 1 FAILED) [])))) ''wf''
     = Inr (Some ((sample_checkpoint ''wf_step_1'' ''wf'' 1 FAILED)\<lparr>updated_at := ''2024-01-01T00:00:06''\<rparr>))
   \<and> sorted (map step_index (memory_list_workflow_checkpoints
      [(''wf_step_2'', sample_checkpoint ''wf_step_2'' ''wf'' 2 IN_PROGRESS),
       (''other_step_7'', sample_checkpoint ''other_step_7'' ''other'' 7 COMPLETED),
       (''wf_step_0'', sample_checkpoint ''wf_step_0'' ''wf'' 0 COMPLETED),
       (''wf_step_1'', sample_checkpoint ''wf_step_1'' ''wf'' 1 FAILED)] ''wf''))"
proof -
  let ?d = "[(''wf_step_2'', sample_checkpoint ''wf_step_2'' ''wf'' 2 IN_PROGRESS),
       (''other_step_7'', sample_checkpoint ''other_step_7'' ''other'' 7 COMPLETED),
       (''wf_step_0'', sample_checkpoint ''wf_step_0'' ''wf'' 0 COMPLETED),
       (''wf_step_1'', sample_checkpoint ''wf_step_1'' ''wf'' 1 FAILED)]"
  let ?t = "snd (sqlite_save sample_dumps ''2024-01-01T00:00:07''
                (sample_checkpoint ''wf_step_0'' ''wf'' 0 COMPLETED)
           (snd (sqlite_save sample_dumps ''2024-01-01T00:00:06''
                (sample_checkpoint ''wf_step_1'' ''wf'' 1 FAILED) [])))"
  note t = list_workflow_checkpoints_sorted_exact [of ?d "''wf''" ?t sample_loads]
  have m1: "memory_list_workflow_checkpoints ?d ''wf''
     = [sample_checkpoint ''wf_step_0'' ''wf'' 0 COMPLETED,
        sample_checkpoint ''wf_step_1'' ''wf'' 1 FAILED,
        sample_checkpoint ''wf_step_2'' ''wf'' 2 IN_PROGRESS]"
    by (simp add: memory_list_workflow_checkpoints_def sample_checkpoint_def)
  have m2: "memory_get_last_checkpoint ?d ''wf'' = Some (sample_checkpoint ''wf_step_2'' ''wf'' 2 IN_PROGRESS)"
    by (simp add: memory_get_last_checkpoint_def m1)
  have s1: "sqlite_list_workflow_checkpoints sample_loads ?t ''wf''
     = Inr [(sample_checkpoint ''wf_step_0'' ''wf'' 0 COMPLETED)\<lparr>updated_at := ''2024-01-01T00:00:07''\<rparr>,
            (sample_checkpoint ''wf_step_1'' ''wf'' 1 FAILED)\<lparr>updated_at := ''2024-01-01T00:00:06''\<rparr>]"
    by (simp add: sqlite_list_workflow_checkpoints_def sqlite_save_def checkpoint_to_row_def insert_or_replace_def
        row_to_checkpoint_def CheckpointStatus_of_def sample_checkpoint_def sample_codec)
  have s2: "sqlite_get_last_checkpoint sample_loads ?t ''wf''
     = Inr (Some ((sample_checkpoint ''wf_step_1'' ''wf'' 1 FAILED)\<lparr>updated_at := ''2024-01-01T00:00:06''\<rparr>))"
    by (simp add: sqlite_get_last_checkpoint_def sqlite_save_def checkpoint_to_row_def insert_or_replace_def
        row_to_checkpoint_def CheckpointStatus_of_def sample_checkpoint_def sample_codec)
  from t have s: "sorted (map step_index (memory_list_workflow_checkpoints ?d ''wf''))"
    by (elim conjE)
  show ?thesis
    by (intro conjI) (rule m1 m2 s1 s2 s)+
qed


subsection \<open>Workflow cleanup\<close>


lemma del_keys_filter:
  assumes "set ks \<subseteq> fst ` set d" and "distinct ks"
  shows "del_keys ks d = Inr (filter (\<lambda>p. fst p \<notin> set ks) d)"
  using assms
proof (induction ks arbitrary: d)
  case Nil
  then show ?case by simp
next
  case (Cons k ks)
  from Cons.prems have k: "k \<in> fst ` set d" and nk: "k \<notin> set ks" and dk: "distinct ks"
    by simp_all
  have del: "AList.delete k d = filter (\<lambda>p. fst p \<noteq> k) d"
    by (simp add: AList.delete_eq case_prod_unfold eq_commute)
  have "set ks \<subseteq> fst ` set (AList.delete k d)"
  proof
    fix x assume x: "x \<in> set ks"
    with Cons.prems(1) have "x \<in> fst ` set d" by auto
    moreover from x nk have "x \<noteq> k" by auto
    ultimately show "x \<in> fst ` set (AList.delete k d)"
      unfolding del by force
  qed
  then have "del_keys ks (AList.delete k d) = Inr (filter (\<lambda>p. fst p \<notin> set ks) (AList.delete k d))"
    using dk by (rule Cons.IH)
  also have "filter (\<lambda>p. fst p \<notin> set ks) (AList.delete k d) = filter (\<lambda>p. fst p \<notin> set (k # ks)) d"
    unfolding del by (auto intro: filter_cong)
  finally show ?case using k by simp
qed

lemma memory_delete_workflow_checkpoints_eq:
  assumes "distinct (map fst d)"
  shows "memory_delete_workflow_checkpoints d wid
     = Inr (length (filter (\<lambda>cp. workflow_id cp = wid) (map snd d)),
            filter (\<lambda>p. workflow_id (snd p) \<noteq> wid) d)"
proof -
  let ?sel = "filter (\<lambda>(k, cp). workflow_id cp = wid) d"
  let ?ks = "map fst ?sel"
  have sub: "set ?ks \<subseteq> fst ` set d" by auto
  have dist: "distinct ?ks"
    using assms by (rule distinct_map_filter)
  have "del_keys ?ks d = Inr (filter (\<lambda>p. fst p \<notin> set ?ks) d)"
    using sub dist by (rule del_keys_filter)
  moreover have "filter (\<lambda>p. fst p \<notin> set ?ks) d = filter (\<lambda>p. workflow_id (snd p) \<noteq> wid) d"
  proof (rule filter_cong [OF refl])
    fix p assume p: "p \<in> set d"
    show "(fst p \<notin> set ?ks) = (workflow_id (snd p) \<noteq> wid)"
    proof
      assume "fst p \<notin> set ?ks"
      with p show "workflow_id (snd p) \<noteq> wid" by (force simp: case_prod_unfold)
    next
      assume w: "workflow_id (snd p) \<noteq> wid"
      show "fst p \<notin> set ?ks"
      proof
        assume "fst p \<in> set ?ks"
        then obtain q where q: "q \<in> set d" "workflow_id (snd q) = wid" "fst q = fst p"
          by (auto simp: case_prod_unfold)
        from assms p q(1,3) have "q = p"
          by (metis eq_key_imp_eq_value prod.collapse)
        with q(2) w show False by simp
      qed
    qed
  qed
  moreover have "length ?ks = length (filter (\<lambda>cp. workflow_id cp = wid) (map snd d))"
    by (simp add: filter_map comp_def case_prod_unfold)
  ultimately show ?thesis
    by (simp add: memory_delete_workflow_checkpoints_def Let_def)
qed

lemma backend_delete_eq:
  assumes "keys_unique b"
  shows "backend_delete_workflow_checkpoints b wid
     = Inr (case b of
              Memory d \<Rightarrow> (length (filter (\<lambda>cp. workflow_id cp = wid) (map snd d)),
                           Memory (filter (\<lambda>p. workflow_id (snd p) \<noteq> wid) d))
            | SQLite t \<Rightarrow> (length (filter (\<lambda>r. col_workflow_id r = wid) t),
                           SQLite (filter (\<lambda>r. col_workflow_id r \<noteq> wid) t)))"
  using assms
  by (cases b)
     (simp_all add: backend_delete_workflow_checkpoints_def keys_unique_def
        memory_delete_workflow_checkpoints_eq sqlite_delete_workflow_checkpoints_def)

lemma backend_delete_keys_unique:
  assumes "keys_unique b" and "backend_delete_workflow_checkpoints b wid = Inr (n, b')"
  shows "keys_unique b'"
  using assms(2) assms(1) unfolding backend_delete_eq [OF assms(1)]
  by (cases b) (auto simp: keys_unique_def distinct_map_filter)

lemma backend_list_after_delete:
  assumes "keys_unique b" and "backend_delete_workflow_checkpoints b wid = Inr (n, b')"
  shows "backend_list_workflow_checkpoints loads b' wid = Inr []"
    and "w \<noteq> wid \<Longrightarrow> backend_list_workflow_checkpoints loads b' w = backend_list_workflow_checkpoints loads b w"
proof -
  have f1: "filter (\<lambda>cp. workflow_id cp = w) (map snd (filter (\<lambda>p. workflow_id (snd p) \<noteq> wid) d))
      = (if w = wid then [] else filter (\<lambda>cp. workflow_id cp = w) (map snd d))" for d :: MemoryCheckpointBackend and w
    by (induction d) auto
  have f2: "filter (\<lambda>r. col_workflow_id r \<noteq> wid \<and> col_workflow_id r = w) t
      = (if w = wid then [] else filter (\<lambda>r. col_workflow_id r = w) t)" for t :: SQLiteCheckpointBackend and w
    by (induction t) auto
  show "backend_list_workflow_checkpoints loads b' wid = Inr []"
    using assms(2) unfolding backend_delete_eq [OF assms(1)]
    by (cases b)
       (auto simp: backend_list_workflow_checkpoints_def memory_list_workflow_checkpoints_def
          sqlite_list_workflow_checkpoints_def f1 f2)
  assume "w \<noteq> wid"
  then show "backend_list_workflow_checkpoints loads b' w = backend_list_workflow_checkpoints loads b w"
    using assms(2) unfolding backend_delete_eq [OF assms(1)]
    by (cases b)
       (auto simp: backend_list_workflow_checkpoints_def memory_list_workflow_checkpoints_def
          sqlite_list_workflow_checkpoints_def f1 f2)
qed

lemma backend_delete_count:
  assumes "keys_unique b" and "backend_list_workflow_checkpoints loads b wid = Inr cps"
  shows "\<exists>b'. backend_delete_workflow_checkpoints b wid = Inr (length cps, b')"
proof (cases b)
  case (Memory d)
  with assms(2) have "length cps = length (filter (\<lambda>cp. workflow_id cp = wid) (map snd d))"
    by (auto simp: backend_list_workflow_checkpoints_def memory_list_workflow_checkpoints_def)
  with Memory show ?thesis
    unfolding backend_delete_eq [OF assms(1)] by simp
next
  case (SQLite t)
  with assms(2) have "rows_to_checkpoints loads
      (sort_key col_step_index (filter (\<lambda>r. col_workflow_id r = wid) t)) = Inr cps"
    by (simp add: backend_list_workflow_checkpoints_def sqlite_list_workflow_checkpoints_def)
  then have "length cps = length (sort_key col_step_index (filter (\<lambda>r. col_workflow_id r = wid) t))"
    by (rule rows_to_checkpoints_nth(1))
  with SQLite show ?thesis
    unfolding backend_delete_eq [OF assms(1)] by simp
qed



lemma backend_delete_idem:
  assumes "keys_unique b" and "backend_delete_workflow_checkpoints b wid = Inr (n, b')"
  shows "backend_delete_workflow_checkpoints b' wid = Inr (0, b')"
proof -
  have u: "keys_unique b'"
    using assms by (rule backend_delete_keys_unique)
  have g1: "filter (\<lambda>cp. workflow_id cp = wid) (map snd (filter (\<lambda>p. workflow_id (snd p) \<noteq> wid) d)) = []"
    for d :: MemoryCheckpointBackend
    by (induction d) auto
  have g2: "filter (\<lambda>r. col_workflow_id r = wid) (filter (\<lambda>r. col_workflow_id r \<noteq> wid) t) = []"
    for t :: SQLiteCheckpointBackend
    by (induction t) auto
  show ?thesis
  proof (cases b)
    case (Memory d)
    with assms(2) have b': "b' = Memory (filter (\<lambda>p. workflow_id (snd p) \<noteq> wid) d)"
      unfolding backend_delete_eq [OF assms(1)] by simp
    show ?thesis
      unfolding backend_delete_eq [OF u] unfolding b' by (simp add: g1)
  next
    case (SQLite t)
    with assms(2) have b': "b' = SQLite (filter (\<lambda>r. col_workflow_id r \<noteq> wid) t)"
      unfolding backend_delete_eq [OF assms(1)] by simp
    show ?thesis
      unfolding backend_delete_eq [OF u] unfolding b' by (simp add: g2 del: filter_filter)
  qed
qed

text \<open>
  Claim C8. For a workflow whose listing has N checkpoints, \<open>cleanup_workflow\<close> returns N;
  afterwards the listing of that workflow is empty, the listing of every other workflow
  is what it was, and a repeated call returns 0 and changes nothing. (The store holds each
  key once, as a dictionary and a primary key do.)
\<close>

theorem cleanup_workflow_count:
  assumes "keys_unique (backend self)" and "list_checkpoints loads self wid = Inr cps"
  shows "\<exists>self'. cleanup_workflow self wid = Inr (length cps, self')
           \<and> list_checkpoints loads self' wid = Inr []
           \<and> (\<forall>w. w \<noteq> wid \<longrightarrow> list_checkpoints loads self' w = list_checkpoints loads self w)
           \<and> cleanup_workflow self' wid = Inr (0, self')"
proof -
  from assms(2) have l: "backend_list_workflow_checkpoints loads (backend self) wid = Inr cps"
    by (simp add: list_checkpoints_def)
  with assms(1) obtain b' where d: "backend_delete_workflow_checkpoints (backend self) wid = Inr (length cps, b')"
    using backend_delete_count by blast
  let ?self' = "self\<lparr>backend := b'\<rparr>"
  have c1: "cleanup_workflow self wid = Inr (length cps, ?self')"
    by (simp add: cleanup_workflow_def d)
  have c2: "list_checkpoints loads ?self' wid = Inr []"
    using backend_list_after_delete(1) [OF assms(1) d] by (simp add: list_checkpoints_def)
  have c3: "\<forall>w. w \<noteq> wid \<longrightarrow> list_checkpoints loads ?self' w = list_checkpoints loads self w"
    using backend_list_after_delete(2) [OF assms(1) d] by (simp add: list_checkpoints_def)
  have c4: "cleanup_workflow ?self' wid = Inr (0, ?self')"
    using backend_delete_idem [OF assms(1) d] by (simp add: cleanup_workflow_def)
  from c1 c2 c3 c4 show ?thesis by blast
qed

theorem cleanup_workflow_count_witness:
  "keys_unique (backend (sample_checkpointer
      (Memory [(''wf_step_1'', sample_checkpoint ''wf_step_1'' ''wf'' 1 FAILED),
               (''other_step_0'', sample_checkpoint ''other_step_0'' ''other'' 0 IN_PROGRESS),
               (''wf_step_0'', sample_checkpoint ''wf_step_0'' ''wf'' 0 COMPLETED)]) MANUAL))
   \<and> list_checkpoints sample_loads (sample_checkpointer
      (Memory [(''wf_step_1'', sample_checkpoint ''wf_step_1'' ''wf'' 1 FAILED),
               (''other_step_0'', sample_checkpoint ''other_step_0'' ''other'' 0 IN_PROGRESS),
               (''wf_step_0'', sample_checkpoint ''wf_step_0'' ''wf'' 0 COMPLETED)]) MANUAL) ''wf''
      = Inr [sample_checkpoint ''wf_step_0'' ''wf'' 0 COMPLETED, sample_checkpoint ''wf_step_1'' ''wf'' 1 FAILED]
   \<and> cleanup_workflow (sample_checkpointer
      (Memory [(''wf_step_1'', sample_checkpoint ''wf_step_1'' ''wf'' 1 FAILED),
               (''other_step_0'', sample_checkpoint ''other_step_0'' ''other'' 0 IN_PROGRESS),
               (''wf_step_0'', sample_checkpoint ''wf_step_0'' ''wf'' 0 COMPLETED)]) MANUAL) ''wf''
      = Inr (2, sample_checkpointer
           (Memory [(''other_step_0'', sample_checkpoint ''other_step_0'' ''other'' 0 IN_PROGRESS)]) MANUAL)
   \<and> list_checkpoints sample_loads (sample_checkpointer
           (Memory [(''other_step_0'', sample_checkpoint ''other_step_0'' ''other'' 0 IN_PROGRESS)]) MANUAL) ''wf''
      = Inr []
   \<and> cleanup_workflow (sample_checkpointer
           (Memory [(''other_step_0'', sample_checkpoint ''other_step_0'' ''other'' 0 IN_PROGRESS)]) MANUAL) ''wf''
      = Inr (0, sample_checkpointer
           (Memory [(''other_step_0'', sample_checkpoint ''other_step_0'' ''other'' 0 IN_PROGRESS)]) MANUAL)"
proof -
  let ?d = "[(''wf_step_1'', sample_checkpoint ''wf_step_1'' ''wf'' 1 FAILED),
               (''other_step_0'', sample_checkpoint ''other_step_0'' ''other'' 0 IN_PROGRESS),
               (''wf_step_0'', sample_checkpoint ''wf_step_0'' ''wf'' 0 COMPLETED)]"
  let ?self = "sample_checkpointer (Memory ?d) MANUAL"
  let ?self' = "sample_checkpointer
           (Memory [(''other_step_0'', sample_checkpoint ''other_step_0'' ''other'' 0 IN_PROGRESS)]) MANUAL"
  have h1: "keys_unique (backend ?self)"
    by (simp add: keys_unique_def sample_checkpointer_def)
  have h2: "list_checkpoints sample_loads ?self ''wf''
      = Inr [sample_checkpoint ''wf_step_0'' ''wf'' 0 COMPLETED, sample_checkpoint ''wf_step_1'' ''wf'' 1 FAILED]"
    by (simp add: list_checkpoints_def backend_list_workflow_checkpoints_def
        memory_list_workflow_checkpoints_def sample_checkpointer_def sample_checkpoint_def)
  have c: "cleanup_workflow ?self ''wf'' = Inr (2, ?self')"
    by (simp add: cleanup_workflow_def backend_delete_workflow_checkpoints_def
        memory_delete_workflow_checkpoints_def sample_checkpointer_def sample_checkpoint_def)
  from cleanup_workflow_count [OF h1 h2] c
  have "list_checkpoints sample_loads ?self' ''wf'' = Inr [] \<and> cleanup_workflow ?self' ''wf'' = Inr (0, ?self')"
    by auto
  with h1 h2 c show ?thesis by blast
qed


subsection \<open>Frame of completion and failure\<close>

text \<open>
  Claim C10. \<open>checkpoint_complete\<close> returns the record with only \<open>status\<close>, \<open>output_data\<close> and
  \<open>updated_at\<close> changed, \<open>checkpoint_failed\<close> with only \<open>status\<close>, \<open>error\<close> and \<open>updated_at\<close>
  changed; \<open>id\<close>, \<open>workflow_id\<close>, \<open>step_name\<close>, \<open>step_index\<close>, \<open>input_data\<close>, \<open>created_at\<close> and
  \<open>metadata\<close> are those of the record passed in (completion also leaves \<open>error\<close>, failure
  also leaves \<open>output_data\<close>). The copy persisted under the record's id
  is the returned record on the volatile backend; on the durable backend (for
  JSON-representable payloads) it loads back with the same seven fields.
\<close>

theorem complete_failed_frame:
  "fst (checkpoint_complete dumps now self cp out)
      = cp\<lparr>status := COMPLETED, output_data := Some out, updated_at := now\<rparr>
   \<and> fst (checkpoint_failed dumps now self cp err)
      = cp\<lparr>status := FAILED, error := Some err, updated_at := now\<rparr>
   \<and> cp_id (fst (checkpoint_complete dumps now self cp out)) = cp_id cp
   \<and> workflow_id (fst (checkpoint_complete dumps now self cp out)) = workflow_id cp
   \<and> step_name (fst (checkpoint_complete dumps now self cp out)) = step_name cp
   \<and> step_index (fst (checkpoint_complete dumps now self cp out)) = step_index cp
   \<and> input_data (fst (checkpoint_complete dumps now self cp out)) = input_data cp
   \<and> created_at (fst (checkpoint_complete dumps now self cp out)) = created_at cp
   \<and> metadata (fst (checkpoint_complete dumps now self cp out)) = metadata cp
   \<and> error (fst (checkpoint_complete dumps now self cp out)) = error cp
   \<and> cp_id (fst (checkpoint_failed dumps now self cp err)) = cp_id cp
   \<and> workflow_id (fst (checkpoint_failed dumps now self cp err)) = workflow_id cp
   \<and> step_name (fst (checkpoint_failed dumps now self cp err)) = step_name cp
   \<and> step_index (fst (checkpoint_failed dumps now self cp err)) = step_index cp
   \<and> input_data (fst (checkpoint_failed dumps now self cp err)) = input_data cp
   \<and> created_at (fst (checkpoint_failed dumps now self cp err)) = created_at cp
   \<and> metadata (fst (checkpoint_failed dumps now self cp err)) = metadata cp
   \<and> output_data (fst (checkpoint_failed dumps now self cp err)) = output_data cp
   \<and> backend_load loads
        (backend (snd (checkpoint_complete dumps now (self\<lparr>backend := Memory d\<rparr>) cp out))) (cp_id cp)
      = Inr (Some (fst (checkpoint_complete dumps now (self\<lparr>backend := Memory d\<rparr>) cp out)))
   \<and> backend_load loads
        (backend (snd (checkpoint_failed dumps now (self\<lparr>backend := Memory d\<rparr>) cp err))) (cp_id cp)
      = Inr (Some (fst (checkpoint_failed dumps now (self\<lparr>backend := Memory d\<rparr>) cp err)))
   \<and> (payloads_representable dumps loads (cp\<lparr>output_data := Some out\<rparr>) \<longrightarrow>
        (\<exists>p. backend_load loads
                (backend (snd (checkpoint_complete dumps now (self\<lparr>backend := SQLite t\<rparr>) cp out))) (cp_id cp)
              = Inr (Some p)
           \<and> cp_id p = cp_id cp \<and> workflow_id p = workflow_id cp \<and> step_name p = step_name cp
           \<and> step_index p = step_index cp \<and> input_data p = input_data cp
           \<and> created_at p = created_at cp \<and> metadata p = metadata cp))
   \<and> (payloads_representable dumps loads cp \<longrightarrow>
        (\<exists>p. backend_load loads
                (backend (snd (checkpoint_failed dumps now (self\<lparr>backend := SQLite t\<rparr>) cp err))) (cp_id cp)
              = Inr (Some p)
           \<and> cp_id p = cp_id cp \<and> workflow_id p = workflow_id cp \<and> step_name p = step_name cp
           \<and> step_index p = step_index cp \<and> input_data p = input_data cp
           \<and> created_at p = created_at cp \<and> metadata p = metadata cp))"
proof (intro conjI impI)
  show "fst (checkpoint_complete dumps now self cp out)
      = cp\<lparr>status := COMPLETED, output_data := Some out, updated_at := now\<rparr>"
    by (rule checkpoint_complete_fst)
  show "fst (checkpoint_failed dumps now self cp err)
      = cp\<lparr>status := FAILED, error := Some err, updated_at := now\<rparr>"
    by (rule checkpoint_failed_fst)
  show "cp_id (fst (checkpoint_complete dumps now self cp out)) = cp_id cp"
    "workflow_id (fst (checkpoint_complete dumps now self cp out)) = workflow_id cp"
    "step_name (fst (checkpoint_complete dumps now self cp out)) = step_name cp"
    "step_index (fst (checkpoint_complete dumps now self cp out)) = step_index cp"
    "input_data (fst (checkpoint_complete dumps now self cp out)) = input_data cp"
    "created_at (fst (checkpoint_complete dumps now self cp out)) = created_at cp"
    "metadata (fst (checkpoint_complete dumps now self cp out)) = metadata cp"
    "error (fst (checkpoint_complete dumps now self cp out)) = error cp"
    by (simp_all add: checkpoint_complete_fst)
  show "cp_id (fst (checkpoint_failed dumps now self cp err)) = cp_id cp"
    "workflow_id (fst (checkpoint_failed dumps now self cp err)) = workflow_id cp"
    "step_name (fst (checkpoint_failed dumps now self cp err)) = step_name cp"
    "step_index (fst (checkpoint_failed dumps now self cp err)) = step_index cp"
    "input_data (fst (checkpoint_failed dumps now self cp err)) = input_data cp"
    "created_at (fst (checkpoint_failed dumps now self cp err)) = created_at cp"
    "metadata (fst (checkpoint_failed dumps now self cp err)) = metadata cp"
    "output_data (fst (checkpoint_failed dumps now self cp err)) = output_data cp"
    by (simp_all add: checkpoint_failed_fst)
  show "backend_load loads
        (backend (snd (checkpoint_complete dumps now (self\<lparr>backend := Memory d\<rparr>) cp out))) (cp_id cp)
      = Inr (Some (fst (checkpoint_complete dumps now (self\<lparr>backend := Memory d\<rparr>) cp out)))"
    by (rule persisted_complete_memory)
  show "backend_load loads
        (backend (snd (checkpoint_failed dumps now (self\<lparr>backend := Memory d\<rparr>) cp err))) (cp_id cp)
      = Inr (Some (fst (checkpoint_failed dumps now (self\<lparr>backend := Memory d\<rparr>) cp err)))"
    by (rule persisted_failed_memory)
next
  assume "payloads_representable dumps loads (cp\<lparr>output_data := Some out\<rparr>)"
  from persisted_complete_sqlite [OF this, where now = now and self = self and t = t]
  show "\<exists>p. backend_load loads
                (backend (snd (checkpoint_complete dumps now (self\<lparr>backend := SQLite t\<rparr>) cp out))) (cp_id cp)
              = Inr (Some p)
           \<and> cp_id p = cp_id cp \<and> workflow_id p = workflow_id cp \<and> step_name p = step_name cp
           \<and> step_index p = step_index cp \<and> input_data p = input_data cp
           \<and> created_at p = created_at cp \<and> metadata p = metadata cp"
    by simp
next
  assume "payloads_representable dumps loads cp"
  from persisted_failed_sqlite [OF this, where now = now and self = self and t = t and err = err]
  show "\<exists>p. backend_load loads
                (backend (snd (checkpoint_failed dumps now (self\<lparr>backend := SQLite t\<rparr>) cp err))) (cp_id cp)
              = Inr (Some p)
           \<and> cp_id p = cp_id cp \<and> workflow_id p = workflow_id cp \<and> step_name p = step_name cp
           \<and> step_index p = step_index cp \<and> input_data p = input_data cp
           \<and> created_at p = created_at cp \<and> metadata p = metadata cp"
    by simp
qed



theorem complete_failed_frame_witness:
  "payloads_representable sample_dumps sample_loads
      ((sample_checkpoint ''wf_step_0'' ''wf'' 0 IN_PROGRESS)\<lparr>output_data := Some [(''y'', JInt 2)]\<rparr>)
   \<and> payloads_representable sample_dumps sample_loads (sample_checkpoint ''wf_step_0'' ''wf'' 0 IN_PROGRESS)
   \<and> fst (checkpoint_complete sample_dumps ''2024-01-01T00:00:09''
          (sample_checkpointer (Memory []) MANUAL)
          (sample_checkpoint ''wf_step_0'' ''wf'' 0 IN_PROGRESS) [(''y'', JInt 2)])
      = \<lparr>cp_id = ''wf_step_0'', workflow_id = ''wf'', step_name = ''step'',
         step_index = 0, status = COMPLETED, input_data = [(''x'', JInt 1)],
         output_data = Some [(''y'', JInt 2)], error = None,
         created_at = ''2024-01-01T00:00:00'', updated_at = ''2024-01-01T00:00:09'',
         metadata = []\<rparr>
   \<and> fst (checkpoint_failed sample_dumps ''2024-01-01T00:00:09''
          (sample_checkpointer (Memory []) MANUAL)
          (sample_checkpoint ''wf_step_0'' ''wf'' 0 IN_PROGRESS) ''boom'')
      = \<lparr>cp_id = ''wf_step_0'', workflow_id = ''wf'', step_name = ''step'',
         step_index = 0, status = FAILED, input_data = [(''x'', JInt 1)],
         output_data = None, error = Some ''boom'',
         created_at = ''2024-01-01T00:00:00'', updated_at = ''2024-01-01T00:00:09'',
         metadata = []\<rparr>
   \<and> backend_load sample_loads
        (backend (snd (checkpoint_complete sample_dumps ''2024-01-01T00:00:09''
          (sample_checkpointer (Memory []) MANUAL)
          (sample_checkpoint ''wf_step_0'' ''wf'' 0 IN_PROGRESS) [(''y'', JInt 2)]))) ''wf_step_0''
      = Inr (Some \<lparr>cp_id = ''wf_step_0'', workflow_id = ''wf'', step_name = ''step'',
         step_index = 0, status = COMPLETED, input_data = [(''x'', JInt 1)],
         output_data = Some [(''y'', JInt 2)], error = None,
         created_at = ''2024-01-01T00:00:00'', updated_at = ''2024-01-01T00:00:09'',
         metadata = []\<rparr>)
   \<and> backend_load sample_loads
        (backend (snd (checkpoint_failed sample_dumps ''2024-01-01T00:00:09''
          (sample_checkpointer (SQLite []) MANUAL)
          (sample_checkpoint ''wf_step_0'' ''wf'' 0 IN_PROGRESS) ''boom''))) ''wf_step_0''
      = Inr (Some \<lparr>cp_id = ''wf_step_0'', workflow_id = ''wf'', step_name = ''step'',
         step_index = 0, status = FAILED, input_data = [(''x'', JInt 1)],
         output_data = None, error = Some ''boom'',
         created_at = ''2024-01-01T00:00:00'', updated_at = ''2024-01-01T00:00:09'',
         metadata = []\<rparr>)"
proof -
  let ?cp = "sample_checkpoint ''wf_step_0'' ''wf'' 0 IN_PROGRESS"
  let ?now = "''2024-01-01T00:00:09''"
  have h1: "payloads_representable sample_dumps sample_loads (?cp\<lparr>output_data := Some [(''y'', JInt 2)]\<rparr>)"
    by (simp add: payloads_representable_def json_roundtrips_def sample_checkpoint_def sample_codec)
  have h2: "payloads_representable sample_dumps sample_loads ?cp"
    by (simp add: payloads_representable_def json_roundtrips_def sample_checkpoint_def sample_codec)
  note t = complete_failed_frame [where dumps = sample_dumps and loads = sample_loads and now = ?now
      and self = "sample_checkpointer (Memory []) MANUAL" and cp = ?cp and out = "[(''y'', JInt 2)]"
      and err = "''boom''" and d = "[]" and t = "[]"]
  from t have c: "fst (checkpoint_complete sample_dumps ?now (sample_checkpointer (Memory []) MANUAL) ?cp [(''y'', JInt 2)])
      = ?cp\<lparr>status := COMPLETED, output_data := Some [(''y'', JInt 2)], updated_at := ?now\<rparr>"
    by (elim conjE)
  from t have f: "fst (checkpoint_failed sample_dumps ?now (sample_checkpointer (Memory []) MANUAL) ?cp ''boom'')
      = ?cp\<lparr>status := FAILED, error := Some ''boom'', updated_at := ?now\<rparr>"
    by (elim conjE)
  have m: "backend_load sample_loads
        (backend (snd (checkpoint_complete sample_dumps ?now (sample_checkpointer (Memory []) MANUAL) ?cp [(''y'', JInt 2)])))
        ''wf_step_0''
      = Inr (Some (?cp\<lparr>status := COMPLETED, output_data := Some [(''y'', JInt 2)], updated_at := ?now\<rparr>))"
    using persisted_complete_memory [where loads = sample_loads and dumps = sample_dumps and now = ?now
        and self = "sample_checkpointer (Memory []) MANUAL" and d = "[]" and cp = ?cp and out = "[(''y'', JInt 2)]"]
    by (simp add: checkpoint_complete_fst sample_checkpointer_def sample_checkpoint_def)
  have s: "backend_load sample_loads
        (backend (snd (checkpoint_failed sample_dumps ?now (sample_checkpointer (SQLite []) MANUAL) ?cp ''boom'')))
        ''wf_step_0''
      = Inr (Some (?cp\<lparr>status := FAILED, error := Some ''boom'', updated_at := ?now\<rparr>))"
    using persisted_failed_sqlite [OF h2, where now = ?now
        and self = "sample_checkpointer (SQLite []) MANUAL" and t = "[]" and err = "''boom''"]
    by (simp add: sample_checkpointer_def sample_checkpoint_def)
  show ?thesis
    using h1 h2 c f m s by (simp add: sample_checkpoint_def)
qed

end
